theory Spec2Isabelle
  imports Complex_Main
begin

section \<open>Data model\<close>

text \<open>
  The scoring core of the repository works on trade dictionaries. A trade is modelled as a
  record with one optional field per dictionary key the code reads; \<open>None\<close> is an absent
  key, so that \<open>trade.get(k, default)\<close> is a case distinction on the field. A present value
  has the type of the data model: timestamps, prices and sizes are numbers, addresses and
  outcome labels are strings (a value that is null, or a text where a number is expected,
  is outside the model). On such values \<open>float(v)\<close> is the identity, the sort key
  \<open>x.get('timestamp', x.get('createdAt', 0))\<close> is the number that \<open>float\<close> returns for it,
  and \<open>dict.get\<close> never raises, so the handlers \<open>except (KeyError, ValueError): continue\<close>
  of the grouping loops are never entered. Python floats are idealised as real numbers;
  the skew scores are given in binary64 arithmetic as well, for the inputs on which the
  rounding decides.
  The exceptions that remain reachable are values of the type \<open>error\<close>.
\<close>

datatype error = ZeroDivisionError | KeyError | ValueError

record trade =
  maker :: "string option"
  taker :: "string option"
  trade_size :: "real option"
  outcome :: "string option"
  timestamp :: "real option"
  createdAt :: "real option"
  price :: "real option"
  executionPrice :: "real option"

text \<open>\<open>trade.get('maker', trade.get('taker', 'unknown'))\<close>\<close>

definition address_of :: "trade \<Rightarrow> string" where
  "address_of t =
     (case maker t of Some a \<Rightarrow> a
      | None \<Rightarrow> (case taker t of Some a \<Rightarrow> a | None \<Rightarrow> ''unknown''))"

text \<open>\<open>float(trade.get('size', 0))\<close>; the key \<open>size\<close> is the field \<open>trade_size\<close>.\<close>

definition size_of :: "trade \<Rightarrow> real" where
  "size_of t = (case trade_size t of Some s \<Rightarrow> s | None \<Rightarrow> 0)"

text \<open>\<open>trade.get('outcome', 'unknown')\<close>\<close>

definition outcome_of :: "trade \<Rightarrow> string" where
  "outcome_of t = (case outcome t of Some l \<Rightarrow> l | None \<Rightarrow> ''unknown'')"

text \<open>\<open>float(t.get('timestamp', t.get('createdAt', 0)))\<close>\<close>

definition timestamp_of :: "trade \<Rightarrow> real" where
  "timestamp_of t =
     (case timestamp t of Some v \<Rightarrow> v
      | None \<Rightarrow> (case createdAt t of Some v \<Rightarrow> v | None \<Rightarrow> 0))"

text \<open>\<open>float(t.get('price', t.get('executionPrice', 0)))\<close>\<close>

definition price_of :: "trade \<Rightarrow> real" where
  "price_of t =
     (case price t of Some v \<Rightarrow> v
      | None \<Rightarrow> (case executionPrice t of Some v \<Rightarrow> v | None \<Rightarrow> 0))"

section \<open>Python helpers\<close>

text \<open>\<open>round(x, n)\<close> on the idealised number: to the nearest multiple of \<open>10 ^ -n\<close>, a tie
  going to the even one.\<close>

definition py_round :: "nat \<Rightarrow> real \<Rightarrow> real" where
  "py_round n x =
     (let y = x * 10 ^ n; f = \<lfloor>y\<rfloor>; d = y - of_int f;
          q = (if d < 1 / 2 then f else if d > 1 / 2 then f + 1
               else if even f then f else f + 1)
      in of_int q / 10 ^ n)"

text \<open>A \<open>defaultdict(float)\<close> is an association list in insertion order;
  \<open>d[k] += v\<close> adds to the entry of \<open>k\<close> or appends the entry \<open>0.0 + v\<close>.\<close>

fun dict_add :: "'k \<Rightarrow> real \<Rightarrow> ('k \<times> real) list \<Rightarrow> ('k \<times> real) list" where
  "dict_add k v [] = [(k, 0 + v)]"
| "dict_add k v ((k', w) # d) =
     (if k = k' then (k', w + v) # d else (k', w) # dict_add k v d)"

text \<open>A \<open>defaultdict(list)\<close>; \<open>d[k].append(v)\<close>.\<close>

fun dict_append :: "'k \<Rightarrow> 'v \<Rightarrow> ('k \<times> 'v list) list \<Rightarrow> ('k \<times> 'v list) list" where
  "dict_append k v [] = [(k, [v])]"
| "dict_append k v ((k', vs) # d) =
     (if k = k' then (k', vs @ [v]) # d else (k', vs) # dict_append k v d)"

text \<open>\<open>max(xs)\<close> on a non-empty list of numbers (every call is guarded).\<close>

definition py_max :: "real list \<Rightarrow> real" where
  "py_max xs = foldl max (hd xs) (tl xs)"

text \<open>\<open>max(items, key=f)\<close>: the first item whose key is maximal.\<close>

fun max_by_from :: "('a \<Rightarrow> real) \<Rightarrow> 'a \<Rightarrow> 'a list \<Rightarrow> 'a" where
  "max_by_from f b [] = b"
| "max_by_from f b (x # xs) = max_by_from f (if f x > f b then x else b) xs"

text \<open>\<open>sorted(items, key=f, reverse=True)\<close>: descending, equal keys in their original
  order.\<close>

definition sorted_desc :: "('a \<Rightarrow> real) \<Rightarrow> 'a list \<Rightarrow> 'a list" where
  "sorted_desc f xs = sort_key (\<lambda>x. - f x) xs"

section \<open>Backtester: indicator functions (class PolymarketBacktester)\<close>

text \<open>The backtester and the detector have methods of the same names; the backtester's carry
  the prefix \<open>bt_\<close>. Each indicator returns its score and its details, \<open>None\<close> for the
  empty dictionary.\<close>

definition address_volumes :: "trade list \<Rightarrow> (string \<times> real) list" where
  "address_volumes trades = foldl (\<lambda>d t. dict_add (address_of t) (size_of t) d) [] trades"

record conc_details =
  herfindahl_index :: real
  num_unique_addresses :: nat
  concentration_ratio_top3 :: real

definition bt_analyze_position_concentration ::
  "trade list \<Rightarrow> error + (real \<times> conc_details option)" where
  "bt_analyze_position_concentration trades =
     (if trades = [] then Inr (0, None)
      else let address_vols = address_volumes trades in
        if address_vols = [] then Inr (0, None)
        else let total_volume = sum_list (map snd address_vols) in
          if total_volume = 0 then Inl ZeroDivisionError
          else let market_shares = map (\<lambda>vol. vol / total_volume) (map snd address_vols);
                   herfindahl = sum_list (map (\<lambda>share. share ^ 2) market_shares);
                   concentration_score = herfindahl * 10
               in Inr (min concentration_score 10,
                    Some \<lparr>herfindahl_index = py_round 3 herfindahl,
                          num_unique_addresses = length address_vols,
                          concentration_ratio_top3 =
                            py_round 3 (sum_list (take 3 (rev (sort (map snd address_vols))))
                                          / total_volume)\<rparr>))"

text \<open>In the velocity indicator nothing inside the \<open>try\<close> block can raise on numeric
  timestamps (the divisor is at least \<open>0.1\<close>), so the handler that returns \<open>(0, {})\<close> is
  never entered. The details hold \<open>trades_per_hour\<close>, rounded.\<close>

definition bt_analyze_volume_velocity :: "trade list \<Rightarrow> real \<times> real option" where
  "bt_analyze_volume_velocity trades =
     (if trades = [] then (0, None)
      else let trades_sorted = sort_key timestamp_of trades in
        if length trades_sorted < 2 then (0, None)
        else let first_time = timestamp_of (hd trades_sorted);
                 last_time = timestamp_of (last trades_sorted);
                 time_diff_hours =
                   (if last_time \<noteq> first_time then (last_time - first_time) / 3600 else 1);
                 trades_per_hour = real (length trades_sorted) / max time_diff_hours (1 / 10);
                 velocity_score = min (trades_per_hour / 10) 10
             in (velocity_score, Some (py_round 2 trades_per_hour)))"

definition outcome_volumes :: "trade list \<Rightarrow> (string \<times> real) list" where
  "outcome_volumes trades = foldl (\<lambda>d t. dict_add (outcome_of t) (size_of t) d) [] trades"

record skew_details =
  outcome_distribution :: "(string \<times> real) list"
  largest_outcome_share :: real

text \<open>The backtester's skew indicator guards only \<open>largest_share\<close> against a zero total;
  the details divide every outcome's volume by the total again.\<close>

definition bt_analyze_outcome_skew ::
  "trade list \<Rightarrow> error + (real \<times> skew_details option)" where
  "bt_analyze_outcome_skew trades =
     (if trades = [] then Inr (0, None)
      else let outcome_vols = outcome_volumes trades in
        if outcome_vols = [] then Inr (0, None)
        else let total = sum_list (map snd outcome_vols);
                 largest_share =
                   (if total > 0 then py_max (map (\<lambda>vol. vol / total) (map snd outcome_vols))
                    else 0);
                 skew_score = min (\<bar>largest_share - 1 / 2\<bar> * 20) 10;
                 sorted_outcomes = sorted_desc snd outcome_vols
             in if total = 0 then Inl ZeroDivisionError
                else Inr (skew_score,
                       Some \<lparr>outcome_distribution =
                               map (\<lambda>(l, vol). (l, py_round 3 (vol / total))) sorted_outcomes,
                             largest_outcome_share = py_round 3 largest_share\<rparr>))"

definition bt_address_trades :: "trade list \<Rightarrow> (string \<times> real list) list" where
  "bt_address_trades trades =
     foldl (\<lambda>d t. dict_append (address_of t) (size_of t) d) [] trades"

text \<open>\<open>whale_data\<close> holds \<open>(total_position, num_trades)\<close> of every address with at least two
  trades; the details hold \<open>top_whale_position\<close>.\<close>

definition bt_analyze_whale_accumulation :: "trade list \<Rightarrow> real \<times> real option" where
  "bt_analyze_whale_accumulation trades =
     (if trades = [] then (0, None)
      else let whale_data =
                 map (\<lambda>(a, trade_list). (sum_list trade_list, length trade_list))
                   (filter (\<lambda>(a, trade_list). length trade_list \<ge> 2) (bt_address_trades trades))
           in if whale_data = [] then (0, None)
              else let top_position = py_max (map fst whale_data);
                       whale_score = min (top_position / 1000) 10
                   in (whale_score, Some top_position))"

section \<open>Backtester: score aggregator\<close>

text \<open>The score mapping is a dictionary from indicator names to numbers. The weights
  dictionary has an entry for \<open>movement\<close>, which the weighted sum does not use.\<close>

definition dict_get :: "(string \<rightharpoonup> real) \<Rightarrow> string \<Rightarrow> real \<Rightarrow> real" where
  "dict_get d k dflt = (case d k of Some v \<Rightarrow> v | None \<Rightarrow> dflt)"

definition bt_calculate_insider_probability :: "(string \<rightharpoonup> real) \<Rightarrow> real" where
  "bt_calculate_insider_probability scores =
     (let weighted_score =
            dict_get scores ''concentration'' 0 * (25 / 100) +
            dict_get scores ''velocity'' 0 * (15 / 100) +
            dict_get scores ''skew'' 0 * (20 / 100) +
            dict_get scores ''whale'' 0 * (25 / 100)
      in min (weighted_score / 10) 1)"

section \<open>Backtester: signal-point finder\<close>

text \<open>The body of the scan loop up to the aggregation: the four indicators on the window, in
  the order of the source, and the aggregate of their scores with \<open>movement\<close> set to 0.\<close>

definition window_signal :: "trade list \<Rightarrow> error + real" where
  "window_signal window_trades =
     (case bt_analyze_position_concentration window_trades of
        Inl e \<Rightarrow> Inl e
      | Inr (concentration_score, _) \<Rightarrow>
          (let velocity_score = fst (bt_analyze_volume_velocity window_trades) in
           case bt_analyze_outcome_skew window_trades of
             Inl e \<Rightarrow> Inl e
           | Inr (skew_score, _) \<Rightarrow>
               (let whale_score = fst (bt_analyze_whale_accumulation window_trades) in
                Inr (bt_calculate_insider_probability
                       [''concentration'' \<mapsto> concentration_score,
                        ''velocity'' \<mapsto> velocity_score,
                        ''skew'' \<mapsto> skew_score,
                        ''whale'' \<mapsto> whale_score,
                        ''movement'' \<mapsto> 0]))))"

text \<open>The loop \<open>for i in range(10, len(trades_sorted))\<close> with its state
  \<open>(max_signal, signal_timestamp)\<close>; the list argument holds the remaining values of \<open>i\<close>.
  Every \<open>i\<close> of the range is below the length, so \<open>trades_sorted[i]\<close> is in range.\<close>

fun signal_scan ::
  "trade list \<Rightarrow> nat list \<Rightarrow> real \<times> real option \<Rightarrow> error + (real \<times> real option)" where
  "signal_scan trades_sorted [] st = Inr st"
| "signal_scan trades_sorted (i # rest) (max_signal, signal_timestamp) =
     (case window_signal (take i trades_sorted) of
        Inl e \<Rightarrow> Inl e
      | Inr signal \<Rightarrow>
          signal_scan trades_sorted rest
            (if signal > max_signal then (signal, Some (timestamp_of (trades_sorted ! i)))
             else (max_signal, signal_timestamp)))"

text \<open>The result is the pair \<open>(signal_timestamp, max_signal)\<close>; \<open>None\<close> is Python's \<open>None\<close>.\<close>

definition find_signal_point :: "trade list \<Rightarrow> error + (real option \<times> real option)" where
  "find_signal_point trades =
     (if length trades < 10 then Inr (None, None)
      else let trades_sorted = sort_key timestamp_of trades in
        case signal_scan trades_sorted [10..<length trades_sorted] (0, None) of
          Inl e \<Rightarrow> Inl e
        | Inr (max_signal, signal_timestamp) \<Rightarrow> Inr (signal_timestamp, Some max_signal))"

section \<open>Backtester: backtest engine\<close>

definition get_trades_before_timestamp :: "trade list \<Rightarrow> real \<Rightarrow> trade list" where
  "get_trades_before_timestamp trades ts = filter (\<lambda>t. timestamp_of t < ts) trades"

definition get_trades_after_timestamp :: "trade list \<Rightarrow> real \<Rightarrow> real \<Rightarrow> trade list" where
  "get_trades_after_timestamp trades ts window_hours =
     (let end_time = ts + window_hours * 3600
      in filter (\<lambda>t. ts \<le> timestamp_of t \<and> timestamp_of t < end_time) trades)"

text \<open>The trades less than 300 seconds from the timestamp, nearest first (the sort is
  stable); the price of the first one, or \<open>None\<close>.\<close>

definition get_market_price_at_timestamp :: "trade list \<Rightarrow> real \<Rightarrow> real option" where
  "get_market_price_at_timestamp trades ts =
     (let nearby_trades =
            sort_key (\<lambda>x. \<bar>timestamp_of x - ts\<bar>)
              (filter (\<lambda>t. \<bar>timestamp_of t - ts\<bar> < 300) trades)
      in case nearby_trades of [] \<Rightarrow> None | t # _ \<Rightarrow> Some (price_of t))"

text \<open>The market dictionary and the resolution metadata, with the keys the engine reads
  (the market's keys \<open>id\<close>, \<open>title\<close> and \<open>question\<close> carry the prefix \<open>m_\<close>).\<close>

record market =
  m_id :: "string option"
  m_title :: "string option"
  m_question :: "string option"

record market_history =
  resolutionSource :: "string option"
  resolvedBy :: "string option"
  resolvedTime :: "real option"

text \<open>The dataclass \<open>BacktestResult\<close>. The field \<open>predicted_correctly\<close> is declared \<open>bool\<close>;
  \<open>insider_probability\<close> receives the second component of the signal point as it is.\<close>

record BacktestResult =
  market_id :: string
  market_title :: string
  signal_timestamp :: real
  analysis_timestamp :: real
  insider_probability :: "real option"
  indicator_scores :: "(string \<times> real) list"
  pre_signal_price :: real
  post_signal_price :: real
  price_movement :: real
  price_movement_pct :: real
  predicted_correctly :: bool
  outcome_prediction :: string
  actual_outcome :: "string option"
  market_resolved :: bool
  time_to_resolution_hours :: "real option"
  trades_analyzed :: nat

text \<open>\<open>max(outcome_distribution.items(), key=lambda x: x[1])[0]\<close>, or \<open>'unknown'\<close> when the
  details have no non-empty distribution.\<close>

definition predict_outcome :: "skew_details option \<Rightarrow> string" where
  "predict_outcome outcome_skew_data =
     (case outcome_skew_data of
        None \<Rightarrow> ''unknown''
      | Some d \<Rightarrow>
          (case outcome_distribution d of
             [] \<Rightarrow> ''unknown''
           | x # xs \<Rightarrow> fst (max_by_from snd x xs)))"

text \<open>The block that checks the market's resolution, from the resolution metadata, the
  signal timestamp and the predicted outcome: it yields \<open>market_resolved\<close>,
  \<open>actual_outcome\<close>, \<open>time_to_resolution\<close> and \<open>predicted_correctly\<close>. The last two
  start as \<open>None\<close> and \<open>False\<close> and are assigned only under
  \<open>if market_resolved and actual_outcome\<close> (a non-empty string is true).\<close>

definition check_resolution ::
  "market_history \<Rightarrow> real \<Rightarrow> string \<Rightarrow> bool \<times> string option \<times> real option \<times> bool" where
  "check_resolution history signal_ts prediction =
     (let resolved = (resolutionSource history \<noteq> None);
          actual = resolvedBy history
      in if resolved \<and> actual \<noteq> None \<and> actual \<noteq> Some []
         then let resolution_timestamp =
                    (case resolvedTime history of Some r \<Rightarrow> r | None \<Rightarrow> signal_ts + 86400)
              in (resolved, actual, Some ((resolution_timestamp - signal_ts) / 3600),
                  Some prediction = actual)
         else (resolved, actual, None, False))"

text \<open>The two fetches and the clock are collaborators: \<open>fetch_historical_trades\<close> and
  \<open>fetch_market_history\<close> are functions of the market id (they catch their own failures and
  return an empty list or dictionary), \<open>now\<close> is \<open>datetime.now().timestamp()\<close>. The result
  is \<open>Inr None\<close> for Python's \<open>None\<close> and \<open>Inl e\<close> when an exception leaves the function.
  The window of trades after the signal is computed by the source and never read. The
  source calls the skew indicator a second time on the same trades for the prediction; the
  model reads the details of the first call.\<close>

definition backtest_market ::
  "(string \<Rightarrow> trade list) \<Rightarrow> (string \<Rightarrow> market_history) \<Rightarrow> real \<Rightarrow> market
     \<Rightarrow> error + BacktestResult option" where
  "backtest_market fetch_historical_trades fetch_market_history now mkt =
     (let mid = (case m_id mkt of Some i \<Rightarrow> i | None \<Rightarrow> []);
          mtitle = (case m_title mkt of Some s \<Rightarrow> s
                    | None \<Rightarrow> (case m_question mkt of Some s \<Rightarrow> s | None \<Rightarrow> []))
      in if mid = [] then Inr None
      else let all_trades = fetch_historical_trades mid in
        if all_trades = [] \<or> length all_trades < 5 then Inr None
        else case find_signal_point all_trades of
          Inl e \<Rightarrow> Inl e
        | Inr (None, insider_prob) \<Rightarrow> Inr None
        | Inr (Some signal_ts, insider_prob) \<Rightarrow>
           (let trades_at_signal = get_trades_before_timestamp all_trades signal_ts;
                trades_after_signal = get_trades_after_timestamp all_trades signal_ts 24 in
            case bt_analyze_position_concentration trades_at_signal of
              Inl e \<Rightarrow> Inl e
            | Inr (concentration_score, _) \<Rightarrow>
               (let velocity_score = fst (bt_analyze_volume_velocity trades_at_signal) in
                case bt_analyze_outcome_skew trades_at_signal of
                  Inl e \<Rightarrow> Inl e
                | Inr (skew_score, outcome_skew_data) \<Rightarrow>
                   (let whale_score = fst (bt_analyze_whale_accumulation trades_at_signal);
                        scores = [(''Concentration'', py_round 2 concentration_score),
                                  (''Velocity'', py_round 2 velocity_score),
                                  (''Skew'', py_round 2 skew_score),
                                  (''Whale'', py_round 2 whale_score)]
                    in case get_market_price_at_timestamp trades_at_signal signal_ts of
                      None \<Rightarrow> Inr None
                    | Some pre_price \<Rightarrow>
                       (case get_market_price_at_timestamp all_trades (signal_ts + 3600) of
                          None \<Rightarrow> Inr None
                        | Some post_price \<Rightarrow>
                           (let movement = post_price - pre_price;
                                movement_pct =
                                  (if pre_price > 0 then movement / pre_price * 100 else 0);
                                prediction = predict_outcome outcome_skew_data
                            in case check_resolution (fetch_market_history mid) signal_ts
                                      prediction of
                                 (resolved, actual, time_to_resolution, correct) \<Rightarrow>
                                   Inr (Some
                                     \<lparr>market_id = mid,
                                      market_title = mtitle,
                                      signal_timestamp = signal_ts,
                                      analysis_timestamp = now,
                                      insider_probability = insider_prob,
                                      indicator_scores = scores,
                                      pre_signal_price = py_round 4 pre_price,
                                      post_signal_price = py_round 4 post_price,
                                      price_movement = py_round 4 movement,
                                      price_movement_pct = py_round 2 movement_pct,
                                      predicted_correctly = correct,
                                      outcome_prediction = prediction,
                                      actual_outcome = actual,
                                      market_resolved = resolved,
                                      time_to_resolution_hours = time_to_resolution,
                                      trades_analyzed = length trades_at_signal\<rparr>)))))))"

section \<open>Detector: indicator functions (class PolymarketInsiderDetector)\<close>

text \<open>The detector returns an analysis dictionary beside each score. Its values are numbers,
  strings, lists and nested dictionaries; \<open>Dct []\<close> is the empty dictionary \<open>{}\<close>.\<close>

datatype pyval = Num real | Str string | Lst "pyval list" | Dct "(string \<times> pyval) list"

text \<open>The nested \<open>defaultdict\<close> \<open>address_outcomes[address][outcome] += size\<close>.\<close>

fun dict_add2 ::
  "'k \<Rightarrow> 'j \<Rightarrow> real \<Rightarrow> ('k \<times> ('j \<times> real) list) list \<Rightarrow> ('k \<times> ('j \<times> real) list) list" where
  "dict_add2 k j v [] = [(k, dict_add j v [])]"
| "dict_add2 k j v ((k', d) # rest) =
     (if k = k' then (k', dict_add j v d) # rest else (k', d) # dict_add2 k j v rest)"

definition address_outcomes :: "trade list \<Rightarrow> (string \<times> (string \<times> real) list) list" where
  "address_outcomes trades =
     foldl (\<lambda>d t. dict_add2 (address_of t) (outcome_of t) (size_of t) d) [] trades"

text \<open>One entry of \<open>top_addresses\<close>. \<open>max\<close> of an empty sequence raises \<open>ValueError\<close>.\<close>

definition top_address_entry ::
  "(string \<times> (string \<times> real) list) list \<Rightarrow> string \<times> real \<Rightarrow> error + pyval" where
  "top_address_entry addr_outcomes av =
     (case (case map_of addr_outcomes (fst av) of Some d \<Rightarrow> d | None \<Rightarrow> []) of
        [] \<Rightarrow> Inl ValueError
      | x # xs \<Rightarrow>
          Inr (Dct [(''address'', Str (take 10 (fst av) @ ''...'')),
                    (''volume'', Num (py_round 2 (snd av))),
                    (''primary_outcome'', Str (fst (max_by_from snd x xs)))]))"

text \<open>A list comprehension whose element expression can raise.\<close>

fun collect :: "('a \<Rightarrow> error + 'b) \<Rightarrow> 'a list \<Rightarrow> error + 'b list" where
  "collect f [] = Inr []"
| "collect f (x # xs) =
     (case f x of
        Inl e \<Rightarrow> Inl e
      | Inr y \<Rightarrow> (case collect f xs of Inl e \<Rightarrow> Inl e | Inr ys \<Rightarrow> Inr (y # ys)))"

text \<open>The detector's concentration indicator returns \<open>herfindahl * 10\<close> as it is.\<close>

definition analyze_position_concentration :: "trade list \<Rightarrow> error + (real \<times> pyval)" where
  "analyze_position_concentration trades =
     (if trades = [] then Inr (0, Dct [])
      else let address_vols = address_volumes trades;
               addr_outcomes = address_outcomes trades in
        if address_vols = [] then Inr (0, Dct [])
        else let total_volume = sum_list (map snd address_vols) in
          if total_volume = 0 then Inl ZeroDivisionError
          else let market_shares = map (\<lambda>vol. vol / total_volume) (map snd address_vols);
                   herfindahl = sum_list (map (\<lambda>share. share ^ 2) market_shares);
                   top_addresses = take 5 (sorted_desc snd address_vols);
                   concentration_score = herfindahl * 10
               in case collect (top_address_entry addr_outcomes) top_addresses of
                    Inl e \<Rightarrow> Inl e
                  | Inr tops \<Rightarrow>
                      Inr (concentration_score,
                        Dct [(''herfindahl_index'', Num (py_round 3 herfindahl)),
                             (''num_unique_addresses'', Num (real (length address_vols))),
                             (''concentration_ratio_top3'',
                                Num (py_round 3 (sum_list (map snd (take 3 top_addresses))
                                                   / total_volume))),
                             (''total_volume'', Num (py_round 2 total_volume)),
                             (''top_addresses'', Lst tops)]))"

text \<open>In the detector's velocity indicator, too, nothing inside the \<open>try\<close> block raises.\<close>

definition analyze_volume_velocity :: "trade list \<Rightarrow> real \<times> pyval" where
  "analyze_volume_velocity trades =
     (if trades = [] then (0, Dct [])
      else let trades_sorted = sort_key timestamp_of trades in
        if length trades_sorted < 2 then (0, Dct [])
        else let first_time = timestamp_of (hd trades_sorted);
                 last_time = timestamp_of (last trades_sorted);
                 time_diff_hours =
                   (if last_time \<noteq> first_time then (last_time - first_time) / 3600 else 1);
                 trades_per_hour = real (length trades_sorted) / max time_diff_hours (1 / 10);
                 recent_trades =
                   filter (\<lambda>t. last_time - timestamp_of t < 86400) trades_sorted;
                 recent_volume = sum_list (map size_of recent_trades);
                 velocity_score = min (trades_per_hour / 10) 10
             in (velocity_score,
                  Dct [(''trades_per_hour'', Num (py_round 2 trades_per_hour)),
                       (''recent_24h_trades'', Num (real (length recent_trades))),
                       (''recent_24h_volume'', Num (py_round 2 recent_volume)),
                       (''velocity_score'', Num (py_round 2 velocity_score))]))"

text \<open>The detector's skew indicator returns \<open>(0, {})\<close> on a zero total.\<close>

definition analyze_outcome_skew :: "trade list \<Rightarrow> real \<times> pyval" where
  "analyze_outcome_skew trades =
     (if trades = [] then (0, Dct [])
      else let outcome_vols = outcome_volumes trades in
        if outcome_vols = [] then (0, Dct [])
        else let total = sum_list (map snd outcome_vols) in
          if total = 0 then (0, Dct [])
          else let sorted_outcomes = sorted_desc snd outcome_vols;
                   largest_share =
                     (case sorted_outcomes of [] \<Rightarrow> 0 | x # _ \<Rightarrow> snd x / total);
                   skew_score = min (\<bar>largest_share - 1 / 2\<bar> * 20) 10
               in (skew_score,
                    Dct [(''outcome_distribution'',
                            Dct (map (\<lambda>(l, vol). (l, Num (py_round 3 (vol / total))))
                                   sorted_outcomes)),
                         (''largest_outcome_share'', Num (py_round 3 largest_share)),
                         (''skew_score'', Num (py_round 2 skew_score))]))"

text \<open>\<open>statistics.mean\<close> and \<open>statistics.stdev\<close> (the sample standard deviation), called on
  lists of at least one and two numbers.\<close>

definition py_mean :: "real list \<Rightarrow> real" where
  "py_mean xs = sum_list xs / real (length xs)"

definition py_stdev :: "real list \<Rightarrow> real" where
  "py_stdev xs =
     sqrt (sum_list (map (\<lambda>x. (x - py_mean xs) ^ 2) xs) / real (length xs - 1))"

definition py_min :: "real list \<Rightarrow> real" where
  "py_min xs = foldl min (hd xs) (tl xs)"

text \<open>The successive relative changes
  \<open>[abs(prices[i] - prices[i-1]) / prices[i-1] for i in range(1, len(prices)) if prices[i-1] != 0]\<close>.\<close>

definition price_changes_of :: "real list \<Rightarrow> real list" where
  "price_changes_of prices =
     map (\<lambda>(prev, cur). \<bar>cur - prev\<bar> / prev)
       (filter (\<lambda>(prev, cur). prev \<noteq> 0) (zip prices (tl prices)))"

text \<open>The prices kept are positive, so no division inside the \<open>try\<close> block is by zero and its
  handler is never entered.\<close>

definition analyze_price_movement :: "trade list \<Rightarrow> real \<times> pyval" where
  "analyze_price_movement trades =
     (if trades = [] then (0, Dct [])
      else let trades_sorted = sort_key timestamp_of trades in
        if length trades_sorted < 3 then (0, Dct [])
        else let prices = filter (\<lambda>p. p > 0) (map price_of trades_sorted) in
          if length prices < 2 then (0, Dct [])
          else let price_changes = price_changes_of prices in
            if price_changes = [] then (0, Dct [])
            else let avg_change = py_mean price_changes;
                     volatility =
                       (if length price_changes > 1 then py_stdev price_changes else 0);
                     movement_score = min ((avg_change + volatility) * 50) 10
                 in (movement_score,
                      Dct [(''avg_price_change'', Num (py_round 4 avg_change)),
                           (''price_volatility'', Num (py_round 4 volatility)),
                           (''price_range'',
                              Lst [Num (py_round 4 (py_min prices)),
                                   Num (py_round 4 (py_max prices))]),
                           (''movement_score'', Num (py_round 2 movement_score))]))"

text \<open>The detector groups \<open>(size, timestamp, price)\<close> per address.\<close>

definition address_trades :: "trade list \<Rightarrow> (string \<times> (real \<times> real \<times> real) list) list" where
  "address_trades trades =
     foldl (\<lambda>d t. dict_append (address_of t) (size_of t, timestamp_of t, price_of t) d)
       [] trades"

record whale_entry =
  w_address :: string
  total_position :: real
  num_trades :: nat
  avg_trade_size :: real
  accumulation_time_hours :: real
  accumulation_speed :: real

definition whale_entry_of :: "string \<times> (real \<times> real \<times> real) list \<Rightarrow> whale_entry" where
  "whale_entry_of e =
     (let trade_list = snd e;
          total_size = sum_list (map fst trade_list);
          trade_list_sorted = sort_key (\<lambda>x. fst (snd x)) trade_list;
          time_span = fst (snd (last trade_list_sorted)) - fst (snd (hd trade_list_sorted))
      in \<lparr>w_address = take 10 (fst e) @ ''...'',
          total_position = total_size,
          num_trades = length trade_list,
          avg_trade_size = total_size / real (length trade_list),
          accumulation_time_hours = (if time_span > 0 then time_span / 3600 else 0),
          accumulation_speed = total_size / max (time_span / 3600) 1\<rparr>)"

definition whale_entry_dict :: "whale_entry \<Rightarrow> pyval" where
  "whale_entry_dict w =
     Dct [(''address'', Str (w_address w)),
          (''total_position'', Num (total_position w)),
          (''num_trades'', Num (real (num_trades w))),
          (''avg_trade_size'', Num (avg_trade_size w)),
          (''accumulation_time_hours'', Num (accumulation_time_hours w)),
          (''accumulation_speed'', Num (accumulation_speed w))]"

definition analyze_whale_accumulation :: "trade list \<Rightarrow> real \<times> pyval" where
  "analyze_whale_accumulation trades =
     (if trades = [] then (0, Dct [])
      else let whale_data =
                 map whale_entry_of
                   (filter (\<lambda>e. length (snd e) \<ge> 2) (address_trades trades))
           in if whale_data = [] then (0, Dct [])
              else let whale_sorted = sorted_desc total_position whale_data;
                       whale_score =
                         (case whale_sorted of
                            [] \<Rightarrow> 0
                          | top_whale # _ \<Rightarrow> min (accumulation_speed top_whale / 100) 10)
                   in (whale_score,
                        Dct [(''num_whale_addresses'', Num (real (length whale_sorted))),
                             (''top_whales'',
                                Lst (map whale_entry_dict (take 5 whale_sorted)))]))"

section \<open>Detector: score aggregator\<close>

text \<open>\<open>scores[k]\<close> raises \<open>KeyError\<close> on a missing key.\<close>

definition dict_item :: "(string \<rightharpoonup> real) \<Rightarrow> string \<Rightarrow> error + real" where
  "dict_item d k = (case d k of Some v \<Rightarrow> Inr v | None \<Rightarrow> Inl KeyError)"

definition calculate_insider_probability :: "(string \<rightharpoonup> real) \<Rightarrow> error + real" where
  "calculate_insider_probability scores =
     (case dict_item scores ''concentration'' of Inl e \<Rightarrow> Inl e | Inr c \<Rightarrow>
      case dict_item scores ''velocity'' of Inl e \<Rightarrow> Inl e | Inr v \<Rightarrow>
      case dict_item scores ''skew'' of Inl e \<Rightarrow> Inl e | Inr s \<Rightarrow>
      case dict_item scores ''movement'' of Inl e \<Rightarrow> Inl e | Inr m \<Rightarrow>
      case dict_item scores ''whale'' of Inl e \<Rightarrow> Inl e | Inr w \<Rightarrow>
        (let weighted_score =
               c * (25 / 100) + v * (15 / 100) + s * (20 / 100) + m * (15 / 100)
               + w * (25 / 100)
         in Inr (min (weighted_score / 10) 1)))"

section \<open>Skew-only scanner (class KalshiInsiderDetector)\<close>





section \<open>Auxiliary notions\<close>

text \<open>The entry of a key in a \<open>defaultdict(float)\<close>, 0 for a key that is not there; used to
  state properties of the grouping loops.\<close>

definition dict_val :: "('k \<times> real) list \<Rightarrow> 'k \<Rightarrow> real" where
  "dict_val d k = (case map_of d k of Some v \<Rightarrow> v | None \<Rightarrow> 0)"

text \<open>The Herfindahl index of a dictionary of address volumes, as the concentration
  functions compute it.\<close>

definition herfindahl_of :: "(string \<times> real) list \<Rightarrow> real" where
  "herfindahl_of d =
     sum_list (map (\<lambda>share. share ^ 2) (map (\<lambda>vol. vol / sum_list (map snd d)) (map snd d)))"

text \<open>The entry of a key in a \<open>defaultdict(list)\<close>, empty for a key that is not there.\<close>

definition list_val :: "('k \<times> 'v list) list \<Rightarrow> 'k \<Rightarrow> 'v list" where
  "list_val d k = (case map_of d k of Some l \<Rightarrow> l | None \<Rightarrow> [])"

section \<open>Binary64 arithmetic of the skew scores\<close>

text \<open>The definitions above take Python's \<open>float\<close> as a real number. A \<open>float\<close> is an
  IEEE 754 binary64 number, and \<open>+\<close>, \<open>-\<close>, \<open>*\<close> and \<open>/\<close> return the exact result rounded to
  the nearest binary64 number, a tie going to the even significand. \<open>fl\<close> is this rounding
  on the normal range (no overflow, no subnormal result): \<open>fl_scale\<close> halves or doubles the
  number until its magnitude lies in \<open>[2^52, 2^53)\<close>, counting the exponent, and the scaled
  number is rounded to an integer, half to even.\<close>

fun fl_scale :: "nat \<Rightarrow> real \<Rightarrow> int \<Rightarrow> real \<times> int" where
  "fl_scale 0 m e = (m, e)"
| "fl_scale (Suc k) m e =
     (if \<bar>m\<bar> \<ge> 2 ^ 53 then fl_scale k (m / 2) (e + 1)
      else if \<bar>m\<bar> < 2 ^ 52 then fl_scale k (m * 2) (e - 1)
      else (m, e))"

definition fl :: "real \<Rightarrow> real" where
  "fl x =
     (if x = 0 then 0
      else case fl_scale 1100 x 0 of
             (m, e) \<Rightarrow> (if e \<ge> 0 then py_round 0 m * 2 ^ nat e
                        else py_round 0 m / 2 ^ nat (- e)))"

text \<open>\<open>KalshiInsiderDetector.calculate_skew\<close> and the field \<open>suspicious_score\<close> of
  \<open>analyze_market\<close> (\<open>skew * 10\<close>), every operation rounded. \<open>abs\<close> is exact.\<close>

definition calculate_skew_f64 :: "real \<Rightarrow> real \<Rightarrow> real" where
  "calculate_skew_f64 yes_price no_price =
     (let total = fl (yes_price + no_price) in
      if total = 0 then 0
      else let yes_prob = fl (yes_price / total); no_prob = fl (no_price / total)
           in fl (\<bar>fl (yes_prob - 1 / 2)\<bar> * 2))"

definition suspicious_score_f64 :: "real \<Rightarrow> real \<Rightarrow> real" where
  "suspicious_score_f64 yes_price no_price = fl (calculate_skew_f64 yes_price no_price * 10)"

text \<open>The score of \<open>PolymarketInsiderDetector.analyze_outcome_skew\<close>, every operation
  rounded: \<open>outcome_volumes[outcome] += size\<close> adds to the entry or to the default \<open>0.0\<close>,
  \<open>sum\<close> adds the values in the order of the dictionary, starting from 0.\<close>

fun dict_add_f64 :: "'k \<Rightarrow> real \<Rightarrow> ('k \<times> real) list \<Rightarrow> ('k \<times> real) list" where
  "dict_add_f64 k v [] = [(k, fl (0 + v))]"
| "dict_add_f64 k v ((k', w) # d) =
     (if k = k' then (k', fl (w + v)) # d else (k', w) # dict_add_f64 k v d)"

definition outcome_volumes_f64 :: "trade list \<Rightarrow> (string \<times> real) list" where
  "outcome_volumes_f64 trades =
     foldl (\<lambda>d t. dict_add_f64 (outcome_of t) (size_of t) d) [] trades"

definition sum_f64 :: "real list \<Rightarrow> real" where
  "sum_f64 xs = foldl (\<lambda>s x. fl (s + x)) 0 xs"

definition analyze_outcome_skew_f64 :: "trade list \<Rightarrow> real" where
  "analyze_outcome_skew_f64 trades =
     (if trades = [] then 0
      else let outcome_vols = outcome_volumes_f64 trades in
        if outcome_vols = [] then 0
        else let total = sum_f64 (map snd outcome_vols) in
          if total = 0 then 0
          else let sorted_outcomes = sorted_desc snd outcome_vols;
                   largest_share =
                     (case sorted_outcomes of [] \<Rightarrow> 0 | x # _ \<Rightarrow> fl (snd x / total));
                   skew_score = fl (\<bar>fl (largest_share - 1 / 2)\<bar> * 20)
               in min skew_score 10)"

section \<open>Concrete inputs\<close>

text \<open>A trade dictionary with the keys \<open>maker\<close>, \<open>outcome\<close>, \<open>size\<close>, \<open>timestamp\<close> and
  \<open>price\<close>.\<close>

definition mk_trade :: "string \<Rightarrow> string \<Rightarrow> real \<Rightarrow> real \<Rightarrow> real \<Rightarrow> trade" where
  "mk_trade a l s ts p =
     \<lparr>maker = Some a, taker = None, trade_size = Some s, outcome = Some l,
      timestamp = Some ts, createdAt = None, price = Some p, executionPrice = None\<rparr>"

text \<open>Ten trades of one address on one outcome, one second apart.\<close>

definition ten_trades :: "trade list" where
  "ten_trades = map (\<lambda>i. mk_trade ''a'' ''YES'' 1 (real i) (1 / 2)) [0..<10]"

text \<open>The same ten trades, followed by a trade of another address on the other outcome at
  second 10 and by one an hour later.\<close>

definition twelve_trades :: "trade list" where
  "twelve_trades =
     ten_trades @ [mk_trade ''b'' ''NO'' 1 10 (1 / 2), mk_trade ''b'' ''NO'' 1 3610 (3 / 4)]"

definition market_m :: market where
  "market_m = \<lparr>m_id = Some ''m'', m_title = Some ''t'', m_question = None\<rparr>"

text \<open>Resolution metadata without \<open>resolutionSource\<close>: the market is unresolved.\<close>

definition no_history :: market_history where
  "no_history = \<lparr>resolutionSource = None, resolvedBy = None, resolvedTime = None\<rparr>"

definition result_twelve :: BacktestResult where
  "result_twelve =
     \<lparr>market_id = ''m'', market_title = ''t'', signal_timestamp = 10,
      analysis_timestamp = 0, insider_probability = Some (2401 / 4000),
      indicator_scores =
        [(''Concentration'', 10), (''Velocity'', 10), (''Skew'', 10), (''Whale'', 1 / 100)],
      pre_signal_price = 1 / 2, post_signal_price = 3 / 4,
      price_movement = 1 / 4, price_movement_pct = 50,
      predicted_correctly = False, outcome_prediction = ''YES'',
      actual_outcome = None, market_resolved = False,
      time_to_resolution_hours = None, trades_analyzed = 10\<rparr>"

definition scores_all_ten :: "string \<rightharpoonup> real" where
  "scores_all_ten =
     [''concentration'' \<mapsto> 10, ''velocity'' \<mapsto> 10, ''skew'' \<mapsto> 10, ''movement'' \<mapsto> 10,
      ''whale'' \<mapsto> 10]"

text \<open>A score mapping without the key \<open>movement\<close>.\<close>

definition scores_no_movement :: "string \<rightharpoonup> real" where
  "scores_no_movement =
     [''concentration'' \<mapsto> 10, ''velocity'' \<mapsto> 10, ''skew'' \<mapsto> 10, ''whale'' \<mapsto> 10]"

text \<open>Two trades with the same timestamp, and two trades one hour apart.\<close>

definition two_same_time :: "trade list" where
  "two_same_time = [mk_trade ''a'' ''YES'' 1 0 (1 / 2), mk_trade ''b'' ''NO'' 1 0 (1 / 2)]"

definition two_hour_apart :: "trade list" where
  "two_hour_apart = [mk_trade ''a'' ''YES'' 1 0 (1 / 2), mk_trade ''b'' ''NO'' 1 3600 (1 / 2)]"

text \<open>Resolution metadata of a market resolved to \<open>YES\<close>, and the backtest result of the
  twelve trades with it.\<close>

definition yes_history :: market_history where
  "yes_history =
     \<lparr>resolutionSource = Some ''oracle'', resolvedBy = Some ''YES'', resolvedTime = Some 7210\<rparr>"

definition result_twelve_yes :: BacktestResult where
  "result_twelve_yes =
     result_twelve\<lparr>predicted_correctly := True, actual_outcome := Some ''YES'',
                   market_resolved := True, time_to_resolution_hours := Some 2\<rparr>"



text \<open>Trades whose volume is split 50/25/25 over three outcomes.\<close>

definition three_way :: "trade list" where
  "three_way =
     [mk_trade ''a'' ''YES'' 2 0 (1 / 2), mk_trade ''b'' ''NO'' 1 1 (1 / 2),
      mk_trade ''c'' ''MAYBE'' 1 2 (1 / 2)]"

text \<open>Eleven trades of one address: three of size 0 at second 0, then eight of size 1 at
  second 5.\<close>

definition zero_before :: "trade list" where
  "zero_before =
     map (\<lambda>i. mk_trade ''a'' ''YES'' 0 0 (1 / 2)) [0..<3] @
     map (\<lambda>i. mk_trade ''a'' ''YES'' 1 5 (1 / 2)) [0..<8]"

text \<open>A trade of size 0, and two trades one of which has a negative size.\<close>

definition zero_trade :: trade where
  "zero_trade = mk_trade ''a'' ''YES'' 0 0 (1 / 2)"

definition negative_trades :: "trade list" where
  "negative_trades = [mk_trade ''a'' ''YES'' 3 0 (1 / 2), mk_trade ''b'' ''YES'' (- 1) 1 (1 / 2)]"

text \<open>The aggregates of the two windows that the scan of the twelve trades computes.\<close>

definition sig_twelve :: "nat \<Rightarrow> real" where
  "sig_twelve i = (if i = 10 then 2401 / 4000 else 252921 / 484000)"

text \<open>A trade of address \<open>a\<close> with size 10 and one with size 5000; a trade with neither
  \<open>maker\<close> nor \<open>taker\<close>; a trade of address \<open>a\<close> without \<open>size\<close>.\<close>

definition trade_a10 :: trade where
  "trade_a10 = mk_trade ''a'' ''YES'' 10 0 (1 / 2)"

definition big_trade :: trade where
  "big_trade = mk_trade ''a'' ''YES'' 5000 0 (1 / 2)"

definition no_address_trade :: trade where
  "no_address_trade =
     \<lparr>maker = None, taker = None, trade_size = Some 10, outcome = Some ''YES'',
      timestamp = Some 1, createdAt = None, price = Some (1 / 2), executionPrice = None\<rparr>"

definition no_size_trade :: trade where
  "no_size_trade =
     \<lparr>maker = Some ''a'', taker = None, trade_size = None, outcome = Some ''YES'',
      timestamp = Some 1, createdAt = None, price = Some (1 / 2), executionPrice = None\<rparr>"




definition trades_7_3 :: "trade list" where
  "trades_7_3 =
     [mk_trade ''a'' ''YES'' (fl (7 / 10)) 0 (1 / 2), mk_trade ''b'' ''NO'' (fl (3 / 10)) 1 (1 / 2)]"

text \<open>Six trades whose sizes \<open>0.1\<close>, \<open>0.1\<close>, \<open>1.2\<close> on \<open>YES\<close> and \<open>1.2\<close>, \<open>0.1\<close>, \<open>0.1\<close> on
  \<open>NO\<close> are the same three binary64 numbers on either side.\<close>

definition half_split :: "trade list" where
  "half_split =
     [mk_trade ''a'' ''YES'' (fl (1 / 10)) 0 (1 / 2), mk_trade ''a'' ''YES'' (fl (1 / 10)) 1 (1 / 2),
      mk_trade ''a'' ''YES'' (fl (12 / 10)) 2 (1 / 2), mk_trade ''b'' ''NO'' (fl (12 / 10)) 3 (1 / 2),
      mk_trade ''b'' ''NO'' (fl (1 / 10)) 4 (1 / 2), mk_trade ''b'' ''NO'' (fl (1 / 10)) 5 (1 / 2)]"

section \<open>Bounds of the backtester's scores\<close>

lemma bt_concentration_le_10:
  "bt_analyze_position_concentration w = Inr (c, d) \<Longrightarrow> c \<le> 10"
  by (auto simp: bt_analyze_position_concentration_def Let_def split: if_splits)

lemma bt_concentration_ge_0:
  "bt_analyze_position_concentration w = Inr (c, d) \<Longrightarrow> 0 \<le> c"
  by (auto simp: bt_analyze_position_concentration_def Let_def split: if_splits
      intro!: sum_list_nonneg)

lemma bt_velocity_le_10: "fst (bt_analyze_volume_velocity w) \<le> 10"
  by (simp add: bt_analyze_volume_velocity_def Let_def)

lemma bt_velocity_ge_0: "0 \<le> fst (bt_analyze_volume_velocity w)"
  by (simp add: bt_analyze_volume_velocity_def Let_def)

lemma bt_skew_le_10: "bt_analyze_outcome_skew w = Inr (c, d) \<Longrightarrow> c \<le> 10"
  by (auto simp: bt_analyze_outcome_skew_def Let_def split: if_splits)

lemma bt_skew_ge_0: "bt_analyze_outcome_skew w = Inr (c, d) \<Longrightarrow> 0 \<le> c"
  by (auto simp: bt_analyze_outcome_skew_def Let_def split: if_splits)

lemma bt_whale_le_10: "fst (bt_analyze_whale_accumulation w) \<le> 10"
  by (simp add: bt_analyze_whale_accumulation_def Let_def)

lemma bt_probability_of_capped_scores:
  assumes "c \<le> 10" "v \<le> 10" "s \<le> 10" "w \<le> 10"
  shows "bt_calculate_insider_probability
           [''concentration'' \<mapsto> c, ''velocity'' \<mapsto> v, ''skew'' \<mapsto> s, ''whale'' \<mapsto> w,
            ''movement'' \<mapsto> m] \<le> 85 / 100"
proof -
  have "c * (25 / 100) + v * (15 / 100) + s * (20 / 100) + w * (25 / 100) \<le> 85 / 10"
    using assms by simp
  then show ?thesis
    by (simp add: bt_calculate_insider_probability_def dict_get_def min_le_iff_disj)
qed

lemma window_signal_le:
  assumes "window_signal w = Inr s"
  shows "s \<le> 85 / 100"
proof -
  from assms obtain c d where c: "bt_analyze_position_concentration w = Inr (c, d)"
    unfolding window_signal_def by (auto split: sum.splits)
  from assms c obtain k e where k: "bt_analyze_outcome_skew w = Inr (k, e)"
    unfolding window_signal_def Let_def by (auto split: sum.splits)
  from assms c k have "s = bt_calculate_insider_probability
      [''concentration'' \<mapsto> c, ''velocity'' \<mapsto> fst (bt_analyze_volume_velocity w),
       ''skew'' \<mapsto> k, ''whale'' \<mapsto> fst (bt_analyze_whale_accumulation w),
       ''movement'' \<mapsto> 0]"
    unfolding window_signal_def Let_def by simp
  then show ?thesis
    using bt_probability_of_capped_scores
      [OF bt_concentration_le_10[OF c] bt_velocity_le_10 bt_skew_le_10[OF k] bt_whale_le_10]
    by simp
qed

text \<open>The running maximum of the scan starts at 0, only grows, and every value it takes is
  a window's aggregate.\<close>

lemma signal_scan_bounds:
  "signal_scan S idxs (m, t) = Inr (m', t') \<Longrightarrow> 0 \<le> m \<Longrightarrow> m \<le> 85 / 100
     \<Longrightarrow> 0 \<le> m' \<and> m' \<le> 85 / 100"
proof (induction idxs arbitrary: m t)
  case Nil
  then show ?case by simp
next
  case (Cons i idxs)
  from Cons.prems(1) obtain s where s: "window_signal (take i S) = Inr s"
    by (auto split: sum.splits)
  have sle: "s \<le> 85 / 100" using s by (rule window_signal_le)
  show ?case
  proof (cases "s > m")
    case True
    with Cons.prems s have "signal_scan S idxs (s, Some (timestamp_of (S ! i))) = Inr (m', t')"
      by simp
    from Cons.IH[OF this] True Cons.prems(2) sle show ?thesis by simp
  next
    case False
    with Cons.prems s have "signal_scan S idxs (m, t) = Inr (m', t')"
      by simp
    from Cons.IH[OF this] Cons.prems show ?thesis by simp
  qed
qed

lemma find_signal_point_bounds:
  "find_signal_point trades = Inr (ts, Some p) \<Longrightarrow> 0 \<le> p \<and> p \<le> 85 / 100"
  unfolding find_signal_point_def Let_def
  by (auto split: if_splits sum.splits prod.splits dest!: signal_scan_bounds)

lemma find_signal_point_Some:
  "find_signal_point trades = Inr (Some ts, q) \<Longrightarrow> \<exists>p. q = Some p"
  unfolding find_signal_point_def Let_def
  by (auto split: if_splits sum.splits prod.splits)

lemma backtest_market_probability:
  "backtest_market f h now m = Inr (Some r)
     \<Longrightarrow> \<exists>ts. find_signal_point (f (market_id r)) = Inr (Some ts, insider_probability r)"
  unfolding backtest_market_def Let_def
  by (auto split: if_splits sum.splits prod.splits option.splits)

lemma bt_probability_bounds:
  assumes "\<forall>k v. scores k = Some v \<longrightarrow> 0 \<le> v \<and> v \<le> 10"
  shows "0 \<le> bt_calculate_insider_probability scores \<and>
         bt_calculate_insider_probability scores \<le> 85 / 100"
proof -
  have g: "0 \<le> dict_get scores k 0 \<and> dict_get scores k 0 \<le> 10" for k
    using assms by (auto simp: dict_get_def split: option.splits)
  let ?c = "dict_get scores ''concentration'' 0"
  let ?v = "dict_get scores ''velocity'' 0"
  let ?s = "dict_get scores ''skew'' 0"
  let ?w = "dict_get scores ''whale'' 0"
  have up: "?c * (25 / 100) + ?v * (15 / 100) + ?s * (20 / 100) + ?w * (25 / 100) \<le> 85 / 10"
    using g[of "''concentration''"] g[of "''velocity''"] g[of "''skew''"] g[of "''whale''"]
    by simp
  have lo: "0 \<le> ?c * (25 / 100) + ?v * (15 / 100) + ?s * (20 / 100) + ?w * (25 / 100)"
    using g[of "''concentration''"] g[of "''velocity''"] g[of "''skew''"] g[of "''whale''"]
    by simp
  show ?thesis
    using up lo by (simp add: bt_calculate_insider_probability_def min_le_iff_disj)
qed

text \<open>Evaluations on the concrete inputs.\<close>

lemma find_signal_point_twelve:
  "find_signal_point twelve_trades = Inr (Some 10, Some (2401 / 4000))"
  by code_simp

lemma backtest_market_twelve:
  "backtest_market (\<lambda>_. twelve_trades) (\<lambda>_. no_history) 0 market_m = Inr (Some result_twelve)"
  by code_simp

text \<open>
  Claim C10. The backtester's aggregator never applies the movement weight: on a score
  mapping whose values lie in [0, 10] it returns a probability between 0 and 0.85; every
  probability returned by \<open>find_signal_point\<close> lies between 0 and 0.85, and so does the
  \<open>insider_probability\<close> of every \<open>BacktestResult\<close> that \<open>backtest_market\<close> returns.
\<close>

theorem backtest_probability_at_most_085:
  "((\<forall>k v. scores k = Some v \<longrightarrow> 0 \<le> v \<and> v \<le> 10) \<longrightarrow>
      0 \<le> bt_calculate_insider_probability scores \<and>
      bt_calculate_insider_probability scores \<le> 85 / 100) \<and>
   (find_signal_point trades = Inr (ts, Some p) \<longrightarrow> 0 \<le> p \<and> p \<le> 85 / 100) \<and>
   (backtest_market f h now m = Inr (Some r) \<longrightarrow>
      (\<exists>q. insider_probability r = Some q \<and> 0 \<le> q \<and> q \<le> 85 / 100))"
proof (intro conjI impI)
  assume "\<forall>k v. scores k = Some v \<longrightarrow> 0 \<le> v \<and> v \<le> 10"
  then show "0 \<le> bt_calculate_insider_probability scores"
    and "bt_calculate_insider_probability scores \<le> 85 / 100"
    using bt_probability_bounds by blast+
next
  assume "find_signal_point trades = Inr (ts, Some p)"
  then show "0 \<le> p" and "p \<le> 85 / 100"
    using find_signal_point_bounds by blast+
next
  assume "backtest_market f h now m = Inr (Some r)"
  then obtain t where t: "find_signal_point (f (market_id r)) = Inr (Some t, insider_probability r)"
    using backtest_market_probability by blast
  then obtain q where q: "insider_probability r = Some q"
    using find_signal_point_Some by blast
  with t find_signal_point_bounds[of "f (market_id r)" "Some t" q]
  show "\<exists>q. insider_probability r = Some q \<and> 0 \<le> q \<and> q \<le> 85 / 100"
    by simp
qed

theorem backtest_probability_at_most_085_witness:
  "0 \<le> bt_calculate_insider_probability scores_all_ten \<and>
   bt_calculate_insider_probability scores_all_ten \<le> 85 / 100 \<and>
   find_signal_point twelve_trades = Inr (Some 10, Some (2401 / 4000)) \<and>
   (2401 / 4000 :: real) \<le> 85 / 100 \<and>
   backtest_market (\<lambda>_. twelve_trades) (\<lambda>_. no_history) 0 market_m = Inr (Some result_twelve) \<and>
   (\<exists>q. insider_probability result_twelve = Some q \<and> 0 \<le> q \<and> q \<le> 85 / 100)"
proof -
  have h1: "\<forall>k v. scores_all_ten k = Some v \<longrightarrow> 0 \<le> v \<and> v \<le> 10"
    by (auto simp: scores_all_ten_def split: if_splits)
  note main = backtest_probability_at_most_085
    [of scores_all_ten twelve_trades "Some 10" "2401 / 4000" "\<lambda>_. twelve_trades"
        "\<lambda>_. no_history" 0 market_m result_twelve]
  from main h1 find_signal_point_twelve backtest_market_twelve show ?thesis
    by blast
qed

section \<open>The score aggregators\<close>

text \<open>
  Claim C2, as stated, fails twice. The detector's aggregator reads \<open>scores[k]\<close> and raises
  \<open>KeyError\<close> on a mapping without \<open>movement\<close>; the backtester's aggregator leaves the
  movement term out, so that on five scores of 10 it returns 0.85 where the five-weight
  formula gives 1.
\<close>

theorem aggregator_counterexample:
  "calculate_insider_probability scores_no_movement = Inl KeyError \<and>
   bt_calculate_insider_probability scores_all_ten = 85 / 100 \<and>
   min ((10 * (25 / 100) + 10 * (15 / 100) + 10 * (20 / 100) + 10 * (15 / 100)
          + 10 * (25 / 100)) / 10) 1 = (1 :: real)"
  by (simp add: calculate_insider_probability_def dict_item_def scores_no_movement_def
      bt_calculate_insider_probability_def dict_get_def scores_all_ten_def)

text \<open>
  Claim C2, amended. The detector's aggregator returns
  \<open>min(sum(weight_i * score_i) / 10, 1)\<close> with the five weights 0.25, 0.15, 0.20, 0.15, 0.25
  when all five scores are present, and raises \<open>KeyError\<close> when one is missing. The
  backtester's aggregator never aborts: a missing score counts as 0, the movement score is
  ignored, and the result is at most 1.
\<close>

theorem aggregators_as_written:
  "(scores ''concentration'' = Some c \<and> scores ''velocity'' = Some v \<and>
    scores ''skew'' = Some s \<and> scores ''movement'' = Some m \<and> scores ''whale'' = Some w \<longrightarrow>
      calculate_insider_probability scores =
        Inr (min ((c * (25 / 100) + v * (15 / 100) + s * (20 / 100) + m * (15 / 100)
                    + w * (25 / 100)) / 10) 1)) \<and>
   (scores ''concentration'' = None \<or> scores ''velocity'' = None \<or> scores ''skew'' = None \<or>
    scores ''movement'' = None \<or> scores ''whale'' = None \<longrightarrow>
      calculate_insider_probability scores = Inl KeyError) \<and>
   bt_calculate_insider_probability scores =
     bt_calculate_insider_probability (\<lambda>k. Some (case scores k of Some x \<Rightarrow> x | None \<Rightarrow> 0)) \<and>
   bt_calculate_insider_probability (scores(''movement'' := x)) =
     bt_calculate_insider_probability scores \<and>
   bt_calculate_insider_probability scores =
     min ((dict_get scores ''concentration'' 0 * (25 / 100)
           + dict_get scores ''velocity'' 0 * (15 / 100)
           + dict_get scores ''skew'' 0 * (20 / 100)
           + dict_get scores ''whale'' 0 * (25 / 100)) / 10) 1"
  by (auto simp: calculate_insider_probability_def dict_item_def
      bt_calculate_insider_probability_def dict_get_def split: option.splits)

theorem aggregators_as_written_witness:
  "calculate_insider_probability scores_all_ten = Inr 1 \<and>
   calculate_insider_probability scores_no_movement = Inl KeyError \<and>
   bt_calculate_insider_probability (scores_no_movement(''movement'' := Some 10)) =
     bt_calculate_insider_probability scores_no_movement"
proof -
  have a: "scores_all_ten ''concentration'' = Some 10 \<and> scores_all_ten ''velocity'' = Some 10 \<and>
    scores_all_ten ''skew'' = Some 10 \<and> scores_all_ten ''movement'' = Some 10 \<and>
    scores_all_ten ''whale'' = Some 10"
    by (simp add: scores_all_ten_def)
  have b: "scores_no_movement ''movement'' = None"
    by (simp add: scores_no_movement_def)
  from aggregators_as_written[of scores_all_ten 10 10 10 10 10] a
  have 1: "calculate_insider_probability scores_all_ten = Inr 1" by simp
  from aggregators_as_written[of scores_no_movement _ _ _ _ _ "Some 10"] b
  show ?thesis using 1 by simp
qed

section \<open>The velocity indicator\<close>

lemma sorted_hd_is_Min: "sorted xs \<Longrightarrow> xs \<noteq> [] \<Longrightarrow> hd xs = Min (set (xs :: real list))"
  by (cases xs) (auto intro!: Min_eqI[symmetric])

lemma sorted_last_is_Max: "sorted xs \<Longrightarrow> xs \<noteq> [] \<Longrightarrow> last xs = Max (set (xs :: real list))"
  by (induction xs) (auto intro!: Max_eqI[symmetric] simp: max_def)

lemma first_time_is_Min:
  assumes "trades \<noteq> []"
  shows "timestamp_of (hd (sort_key timestamp_of trades)) = Min (timestamp_of ` set trades)"
proof -
  let ?S = "sort_key timestamp_of trades"
  have ne: "?S \<noteq> []" using assms by (metis length_sort length_0_conv)
  have "hd (map timestamp_of ?S) = Min (set (map timestamp_of ?S))"
    by (rule sorted_hd_is_Min) (simp_all add: ne)
  then show ?thesis using ne by (simp add: hd_map)
qed

lemma last_time_is_Max:
  assumes "trades \<noteq> []"
  shows "timestamp_of (last (sort_key timestamp_of trades)) = Max (timestamp_of ` set trades)"
proof -
  let ?S = "sort_key timestamp_of trades"
  have ne: "?S \<noteq> []" using assms by (metis length_sort length_0_conv)
  have "last (map timestamp_of ?S) = Max (set (map timestamp_of ?S))"
    by (rule sorted_last_is_Max) (simp_all add: ne)
  then show ?thesis using ne by (simp add: last_map)
qed

text \<open>
  Claim C5, as stated, fails where the first and the last timestamp are equal: the claim's
  formula takes the time span 0 up to 0.1 hours and gives the score 2 for two such trades;
  both velocity functions replace a zero span by 1 hour and return 0.2.
\<close>

theorem velocity_counterexample:
  "fst (analyze_volume_velocity two_same_time) = 1 / 5 \<and>
   fst (bt_analyze_volume_velocity two_same_time) = 1 / 5 \<and>
   min ((real (length two_same_time)
          / max ((timestamp_of (last (sort_key timestamp_of two_same_time))
                  - timestamp_of (hd (sort_key timestamp_of two_same_time))) / 3600) (1 / 10))
        / 10) 10 = 2"
  by code_simp

text \<open>
  Claim C5, amended. For every list of at least 2 trades both velocity functions return
  \<open>min(tradesPerHour / 10, 10)\<close> with \<open>tradesPerHour = count / max(hours, 0.1)\<close>, where
  \<open>hours\<close> is the time between the earliest and the latest trade in hours, or 1 when the
  two timestamps are equal; for fewer than 2 trades they return \<open>(0, {})\<close>.
\<close>

theorem velocity_as_written:
  "(2 \<le> length trades \<longrightarrow>
      (let first_time = Min (timestamp_of ` set trades);
           last_time = Max (timestamp_of ` set trades);
           hours = (if last_time \<noteq> first_time then (last_time - first_time) / 3600 else 1);
           trades_per_hour = real (length trades) / max hours (1 / 10)
       in fst (analyze_volume_velocity trades) = min (trades_per_hour / 10) 10 \<and>
          fst (bt_analyze_volume_velocity trades) = min (trades_per_hour / 10) 10)) \<and>
   (length trades < 2 \<longrightarrow>
      analyze_volume_velocity trades = (0, Dct []) \<and>
      bt_analyze_volume_velocity trades = (0, None))"
proof (intro conjI impI)
  assume len: "2 \<le> length trades"
  then have ne: "trades \<noteq> []" by auto
  show "let first_time = Min (timestamp_of ` set trades);
           last_time = Max (timestamp_of ` set trades);
           hours = (if last_time \<noteq> first_time then (last_time - first_time) / 3600 else 1);
           trades_per_hour = real (length trades) / max hours (1 / 10)
       in fst (analyze_volume_velocity trades) = min (trades_per_hour / 10) 10 \<and>
          fst (bt_analyze_volume_velocity trades) = min (trades_per_hour / 10) 10"
    using len ne
    by (simp add: analyze_volume_velocity_def bt_analyze_volume_velocity_def Let_def
        first_time_is_Min last_time_is_Max)
next
  assume "length trades < 2"
  then show "analyze_volume_velocity trades = (0, Dct [])"
    by (simp add: analyze_volume_velocity_def Let_def)
next
  assume "length trades < 2"
  then show "bt_analyze_volume_velocity trades = (0, None)"
    by (simp add: bt_analyze_volume_velocity_def Let_def)
qed

theorem velocity_as_written_witness:
  "fst (analyze_volume_velocity two_hour_apart) = 1 / 5 \<and>
   fst (bt_analyze_volume_velocity two_hour_apart) = 1 / 5 \<and>
   fst (analyze_volume_velocity two_same_time) = 1 / 5 \<and>
   analyze_volume_velocity [] = (0, Dct []) \<and>
   bt_analyze_volume_velocity [] = (0, None)"
proof -
  have l: "length two_hour_apart = 2" "length two_same_time = 2"
    by (simp_all add: two_hour_apart_def two_same_time_def)
  have m: "Min (timestamp_of ` set two_hour_apart) = 0"
    "Max (timestamp_of ` set two_hour_apart) = 3600"
    "Min (timestamp_of ` set two_same_time) = 0"
    "Max (timestamp_of ` set two_same_time) = 0"
    by (simp_all add: two_hour_apart_def two_same_time_def mk_trade_def timestamp_of_def)
  from velocity_as_written[of two_hour_apart] velocity_as_written[of two_same_time]
    velocity_as_written[of "[]"] l m
  show ?thesis by (simp add: Let_def)
qed

section \<open>The skew-only scanner and the outcome-skew indicator\<close>

text \<open>Rounding on concrete numbers: \<open>fl_scale\<close> with a numeral for its fuel.\<close>

lemma fl_scale_numeral:
  "fl_scale (numeral k) m e =
     (if \<bar>m\<bar> \<ge> 2 ^ 53 then fl_scale (pred_numeral k) (m / 2) (e + 1)
      else if \<bar>m\<bar> < 2 ^ 52 then fl_scale (pred_numeral k) (m * 2) (e - 1)
      else (m, e))"
  by (simp add: numeral_eq_Suc)

lemmas fl_eval = fl_def fl_scale_numeral py_round_def Let_def

lemma fl_3_10: "fl (3 / 10) = 5404319552844595 / 18014398509481984"
  by (simp add: fl_eval)

lemma fl_7_10: "fl (7 / 10) = 3152519739159347 / 4503599627370496"
  by (simp add: fl_eval)









lemma detector_distance_7_10:
  "fl (3152519739159347 / 4503599627370496 - 1 / 2) = 900719925474099 / 4503599627370496"
  by (simp add: fl_eval)

lemma detector_times_20_7_10:
  "fl (\<bar>900719925474099 / 4503599627370496\<bar> * 20) = 4503599627370495 / 1125899906842624"
  by (simp add: fl_eval)



text \<open>With \<open>YES\<close> as the larger side and the volumes equal to the prices, here \<open>0.7\<close> and
  \<open>0.3\<close>, the two functions go through the same roundings and return the same number.\<close>

lemma scanner_total_7_3:
  "fl (3152519739159347 / 4503599627370496 + 5404319552844595 / 18014398509481984) = 1"
  by (simp add: fl_eval)

lemma scanner_yes_prob_7_3:
  "fl (3152519739159347 / 4503599627370496 / 1) = 3152519739159347 / 4503599627370496"
  by (simp add: fl_eval)

lemma scanner_double_7_3:
  "fl (\<bar>900719925474099 / 4503599627370496\<bar> * 2) = 900719925474099 / 2251799813685248"
  by (simp add: fl_eval)

lemma scanner_times_10_7_3:
  "fl (900719925474099 / 2251799813685248 * 10) = 4503599627370495 / 1125899906842624"
  by (simp add: fl_eval)

lemma scanner_skew_7_3:
  "calculate_skew_f64 (3152519739159347 / 4503599627370496)
     (5404319552844595 / 18014398509481984) = 900719925474099 / 2251799813685248"
  unfolding calculate_skew_f64_def Let_def scanner_total_7_3 scanner_yes_prob_7_3
    detector_distance_7_10 scanner_double_7_3
  by simp

lemma volumes_7_3:
  "outcome_volumes_f64 trades_7_3 =
     [(''YES'', 3152519739159347 / 4503599627370496),
      (''NO'', 5404319552844595 / 18014398509481984)]"
proof -
  have "outcome_volumes_f64 trades_7_3 =
          [(''YES'', fl (0 + fl (7 / 10))), (''NO'', fl (0 + fl (3 / 10)))]"
    by (simp add: outcome_volumes_f64_def trades_7_3_def mk_trade_def outcome_of_def
        size_of_def)
  moreover have "fl (0 + 3152519739159347 / 4503599627370496)
                   = 3152519739159347 / 4503599627370496"
    and "fl (0 + 5404319552844595 / 18014398509481984)
           = 5404319552844595 / 18014398509481984"
    by (simp_all add: fl_eval)
  ultimately show ?thesis unfolding fl_3_10 fl_7_10 by (simp only:)
qed

lemma total_7_3:
  "sum_f64 [3152519739159347 / 4503599627370496, 5404319552844595 / 18014398509481984] = 1"
  by (simp add: sum_f64_def fl_eval)

lemma skew_scores_agree_7_3:
  "suspicious_score_f64 (fl (7 / 10)) (fl (3 / 10)) = 4503599627370495 / 1125899906842624 \<and>
   analyze_outcome_skew_f64 trades_7_3 = 4503599627370495 / 1125899906842624"
proof -
  have ne: "trades_7_3 \<noteq> []" by (simp add: trades_7_3_def)
  have srt: "sorted_desc snd
               [(''YES'', 3152519739159347 / 4503599627370496 :: real),
                (''NO'', 5404319552844595 / 18014398509481984)]
             = [(''YES'', 3152519739159347 / 4503599627370496),
                (''NO'', 5404319552844595 / 18014398509481984)]"
    by (simp add: sorted_desc_def)
  have "analyze_outcome_skew_f64 trades_7_3 =
          min (fl (\<bar>fl (fl (3152519739159347 / 4503599627370496 / 1) - 1 / 2)\<bar> * 20)) 10"
    using ne by (simp add: analyze_outcome_skew_f64_def volumes_7_3 total_7_3 srt Let_def)
  also have "\<dots> = 4503599627370495 / 1125899906842624"
    unfolding scanner_yes_prob_7_3 detector_distance_7_10 detector_times_20_7_10 by simp
  finally have d: "analyze_outcome_skew_f64 trades_7_3 = 4503599627370495 / 1125899906842624" .
  have s: "suspicious_score_f64 (fl (7 / 10)) (fl (3 / 10))
             = 4503599627370495 / 1125899906842624"
    unfolding suspicious_score_f64_def fl_3_10 fl_7_10 scanner_skew_7_3 scanner_times_10_7_3 ..
  from s d show ?thesis by (rule conjI)
qed



section \<open>The backtest engine\<close>

text \<open>What a returned \<open>BacktestResult\<close> says about the run that built it.\<close>

lemma backtest_market_shape:
  assumes "backtest_market f h now m = Inr (Some r)"
  obtains mid ts pre post c cd s d where
    "m_id m = Some mid" "mid \<noteq> []" "5 \<le> length (f mid)"
    "find_signal_point (f mid) = Inr (Some ts, insider_probability r)"
    "bt_analyze_position_concentration (get_trades_before_timestamp (f mid) ts) = Inr (c, cd)"
    "bt_analyze_outcome_skew (get_trades_before_timestamp (f mid) ts) = Inr (s, d)"
    "get_market_price_at_timestamp (get_trades_before_timestamp (f mid) ts) ts = Some pre"
    "get_market_price_at_timestamp (f mid) (ts + 3600) = Some post"
    "market_id r = mid" "signal_timestamp r = ts"
    "pre_signal_price r = py_round 4 pre" "post_signal_price r = py_round 4 post"
    "outcome_prediction r = predict_outcome d"
    "(market_resolved r, actual_outcome r, time_to_resolution_hours r, predicted_correctly r)
       = check_resolution (h mid) ts (predict_outcome d)"
proof -
  obtain mid where mid: "m_id m = Some mid" "mid \<noteq> []"
    using assms unfolding backtest_market_def Let_def
    by (cases "m_id m") (auto split: if_splits)
  let ?all = "f mid"
  from assms mid have len: "5 \<le> length ?all"
    unfolding backtest_market_def Let_def
    by (simp split: if_splits)
  from assms mid obtain ts prob where fsp: "find_signal_point ?all = Inr (Some ts, prob)"
    unfolding backtest_market_def Let_def
    by (simp split: if_splits sum.splits prod.splits option.splits)
  let ?at = "get_trades_before_timestamp ?all ts"
  from assms mid fsp obtain c cd where c: "bt_analyze_position_concentration ?at = Inr (c, cd)"
    unfolding backtest_market_def Let_def
    by (simp split: if_splits sum.splits prod.splits)
  from assms mid fsp c obtain s d where s: "bt_analyze_outcome_skew ?at = Inr (s, d)"
    unfolding backtest_market_def Let_def
    by (simp split: if_splits sum.splits prod.splits)
  from assms mid fsp c s obtain pre where pre: "get_market_price_at_timestamp ?at ts = Some pre"
    unfolding backtest_market_def Let_def
    by (simp split: if_splits option.splits)
  from assms mid fsp c s pre obtain post where
    post: "get_market_price_at_timestamp ?all (ts + 3600) = Some post"
    unfolding backtest_market_def Let_def
    by (simp split: if_splits option.splits)
  obtain rs ac tt pc where cr: "check_resolution (h mid) ts (predict_outcome d) = (rs, ac, tt, pc)"
    by (cases "check_resolution (h mid) ts (predict_outcome d)") auto
  from assms mid fsp c s pre post cr have fields:
    "insider_probability r = prob \<and> market_id r = mid \<and> signal_timestamp r = ts \<and>
     pre_signal_price r = py_round 4 pre \<and> post_signal_price r = py_round 4 post \<and>
     outcome_prediction r = predict_outcome d \<and>
     market_resolved r = rs \<and> actual_outcome r = ac \<and> time_to_resolution_hours r = tt \<and>
     predicted_correctly r = pc"
    unfolding backtest_market_def Let_def
    by (auto split: if_splits)
  show thesis
    by (rule that[of mid ts c cd s d pre post]) (use mid len fsp c s pre post cr fields in simp_all)
qed

lemma backtest_market_twelve_yes:
  "backtest_market (\<lambda>_. twelve_trades) (\<lambda>_. yes_history) 0 market_m
     = Inr (Some result_twelve_yes)"
  by code_simp

text \<open>
  Claim C4, as stated, fails: \<open>predicted_correctly\<close> is a plain boolean that starts as
  \<open>False\<close>, so for a market without resolution metadata the result asserts \<open>False\<close>, not
  "unknown".
\<close>

theorem unresolved_market_counterexample:
  "backtest_market (\<lambda>_. twelve_trades) (\<lambda>_. no_history) 0 market_m = Inr (Some result_twelve) \<and>
   market_resolved result_twelve = False \<and>
   predicted_correctly result_twelve = False"
  using backtest_market_twelve by (simp add: result_twelve_def)

text \<open>
  Claim C4, amended. In every \<open>BacktestResult\<close>, \<open>market_resolved\<close> says whether the
  resolution metadata has a \<open>resolutionSource\<close>; for an unresolved market
  \<open>predicted_correctly\<close> is \<open>False\<close> and \<open>time_to_resolution_hours\<close> is \<open>None\<close>;
  \<open>predicted_correctly\<close> is true exactly when the market is resolved and its actual outcome
  is a non-empty label equal to the predicted one.
\<close>

theorem predicted_correctly_as_written:
  "backtest_market f h now m = Inr (Some r) \<longrightarrow>
     (market_resolved r \<longleftrightarrow> resolutionSource (h (market_id r)) \<noteq> None) \<and>
     (\<not> market_resolved r \<longrightarrow>
        predicted_correctly r = False \<and> time_to_resolution_hours r = None) \<and>
     (predicted_correctly r \<longleftrightarrow>
        market_resolved r \<and> actual_outcome r \<noteq> Some [] \<and>
        actual_outcome r = Some (outcome_prediction r))"
proof
  assume "backtest_market f h now m = Inr (Some r)"
  then obtain ts d where
    "(market_resolved r, actual_outcome r, time_to_resolution_hours r, predicted_correctly r)
       = check_resolution (h (market_id r)) ts (predict_outcome d)"
    and "outcome_prediction r = predict_outcome d"
    by (elim backtest_market_shape) simp
  then show "(market_resolved r \<longleftrightarrow> resolutionSource (h (market_id r)) \<noteq> None) \<and>
     (\<not> market_resolved r \<longrightarrow>
        predicted_correctly r = False \<and> time_to_resolution_hours r = None) \<and>
     (predicted_correctly r \<longleftrightarrow>
        market_resolved r \<and> actual_outcome r \<noteq> Some [] \<and>
        actual_outcome r = Some (outcome_prediction r))"
    by (auto simp: check_resolution_def Let_def split: if_splits)
qed

theorem predicted_correctly_as_written_witness:
  "backtest_market (\<lambda>_. twelve_trades) (\<lambda>_. no_history) 0 market_m = Inr (Some result_twelve) \<and>
   \<not> market_resolved result_twelve \<and>
   predicted_correctly result_twelve = False \<and>
   time_to_resolution_hours result_twelve = None \<and>
   backtest_market (\<lambda>_. twelve_trades) (\<lambda>_. yes_history) 0 market_m
     = Inr (Some result_twelve_yes) \<and>
   predicted_correctly result_twelve_yes \<and>
   actual_outcome result_twelve_yes = Some (outcome_prediction result_twelve_yes)"
proof -
  have n: "resolutionSource no_history = None" by (simp add: no_history_def)
  have y: "predicted_correctly result_twelve_yes"
    by (simp add: result_twelve_yes_def)
  from predicted_correctly_as_written
         [of "\<lambda>_. twelve_trades" "\<lambda>_. no_history" 0 market_m result_twelve]
       predicted_correctly_as_written
         [of "\<lambda>_. twelve_trades" "\<lambda>_. yes_history" 0 market_m result_twelve_yes]
       backtest_market_twelve backtest_market_twelve_yes n y
  show ?thesis by simp
qed

section \<open>Grouping by key\<close>

text \<open>The grouping loops of the indicators fold \<open>d[key] += value\<close> over the trades. The keys
  of the result are the keys met, each once, and the entry of a key is the sum of its
  values.\<close>

lemma dict_add_keys:
  "map fst (dict_add k v d) = (if k \<in> set (map fst d) then map fst d else map fst d @ [k])"
  by (induction k v d rule: dict_add.induct) (auto simp: rev_image_eqI)

lemma dict_add_key_set: "set (map fst (dict_add k v d)) = insert k (set (map fst d))"
  by (auto simp: dict_add_keys)

lemma dict_add_distinct: "distinct (map fst d) \<Longrightarrow> distinct (map fst (dict_add k v d))"
  by (simp add: dict_add_keys)

lemma dict_add_sum: "sum_list (map snd (dict_add k v d)) = sum_list (map snd d) + v"
  by (induction d) auto

lemma dict_val_add:
  "dict_val (dict_add k v d) k' = dict_val d k' + (if k' = k then v else 0)"
  by (induction d) (auto simp: dict_val_def)

lemma grouped_keys:
  "set (map fst (foldl (\<lambda>d t. dict_add (key t) (val t) d) d0 ts))
     = set (map fst d0) \<union> key ` set ts"
  by (induction ts arbitrary: d0) (simp_all add: dict_add_key_set del: set_map)

lemma grouped_distinct:
  "distinct (map fst d0) \<Longrightarrow>
     distinct (map fst (foldl (\<lambda>d t. dict_add (key t) (val t) d) d0 ts))"
  by (induction ts arbitrary: d0) (auto simp: dict_add_distinct)

lemma grouped_sum:
  "sum_list (map snd (foldl (\<lambda>d t. dict_add (key t) (val t) d) d0 ts))
     = sum_list (map snd d0) + sum_list (map val ts)"
  by (induction ts arbitrary: d0) (auto simp: dict_add_sum)

lemma grouped_val:
  "dict_val (foldl (\<lambda>d t. dict_add (key t) (val t) d) d0 ts) k
     = dict_val d0 k + sum_list (map val (filter (\<lambda>t. key t = k) ts))"
  by (induction ts arbitrary: d0) (auto simp: dict_val_add)

lemma dict_val_entry:
  "distinct (map fst d) \<Longrightarrow> (k, v) \<in> set d \<Longrightarrow> dict_val d k = v"
  by (simp add: dict_val_def)

lemma py_max_is_Max: "xs \<noteq> [] \<Longrightarrow> py_max xs = Max (set xs)"
proof -
  assume "xs \<noteq> []"
  then obtain y ys where xs: "xs = y # ys" by (cases xs) auto
  have "foldl max y ys = fold max ys y"
    by (simp add: foldl_conv_fold max.commute)
  then show ?thesis
    unfolding py_max_def xs using Max.set_eq_fold[of y ys] by simp
qed

lemma hd_sorted_desc:
  assumes "xs \<noteq> []"
  shows "f (hd (sorted_desc f xs)) = Max (f ` set xs)"
proof -
  let ?S = "sort_key (\<lambda>x. - f x) xs"
  have ne: "?S \<noteq> []" using assms by (metis length_sort length_0_conv)
  have srt: "sorted (map (\<lambda>x. - f x) ?S)" by simp
  have mem: "hd ?S \<in> set xs" using ne by (metis hd_in_set set_sort)
  have "\<forall>y\<in>set ?S. - f (hd ?S) \<le> - f y"
    using srt ne by (cases ?S) auto
  then have "\<forall>y\<in>set xs. f y \<le> f (hd ?S)" by simp
  then show ?thesis
    unfolding sorted_desc_def using mem by (intro Max_eqI[symmetric]) auto
qed


section \<open>The outcome-skew indicator\<close>

lemma sum_list_all_zero: "(\<forall>x\<in>set xs. f x = (0::real)) \<Longrightarrow> sum_list (map f xs) = 0"
  by (induction xs) auto

lemma sum_list_filter_split:
  "sum_list (map f xs) =
     sum_list (map f (filter P xs)) + (sum_list (map f (filter (\<lambda>x. \<not> P x) xs)) :: real)"
  by (induction xs) auto

lemma sum_list_filter_nonzero:
  "sum_list (map f (filter P xs)) \<noteq> (0::real) \<Longrightarrow> \<exists>x\<in>set xs. P x"
  by (induction xs) (auto split: if_splits)

lemma outcome_volumes_keys:
  "set (map fst (outcome_volumes trades)) = outcome_of ` set trades"
  unfolding outcome_volumes_def by (simp add: grouped_keys del: set_map)

lemma outcome_volumes_distinct: "distinct (map fst (outcome_volumes trades))"
  unfolding outcome_volumes_def by (rule grouped_distinct) simp

lemma outcome_volumes_total:
  "sum_list (map snd (outcome_volumes trades)) = sum_list (map size_of trades)"
  unfolding outcome_volumes_def by (simp add: grouped_sum)

lemma outcome_volumes_entry:
  assumes "(l, v) \<in> set (outcome_volumes trades)"
  shows "v = sum_list (map size_of (filter (\<lambda>t. outcome_of t = l) trades))"
proof -
  have "dict_val (outcome_volumes trades) l = v"
    using outcome_volumes_distinct assms by (rule dict_val_entry)
  moreover have "dict_val (outcome_volumes trades) l
      = sum_list (map size_of (filter (\<lambda>t. outcome_of t = l) trades))"
    unfolding outcome_volumes_def by (simp add: grouped_val) (simp add: dict_val_def)
  ultimately show ?thesis by simp
qed

lemma outcome_volumes_nonempty: "trades \<noteq> [] \<Longrightarrow> outcome_volumes trades \<noteq> []"
  using outcome_volumes_keys[of trades] by (cases "outcome_volumes trades") auto

lemma skew_score_positive_total:
  assumes pos: "0 < sum_list (map size_of trades)"
  shows "fst (analyze_outcome_skew trades) =
           min (\<bar>Max (snd ` set (outcome_volumes trades)) / sum_list (map size_of trades)
                 - 1 / 2\<bar> * 20) 10"
proof -
  let ?ov = "outcome_volumes trades"
  have ne: "trades \<noteq> []" using pos by auto
  then have ovne: "?ov \<noteq> []" by (rule outcome_volumes_nonempty)
  then have "sorted_desc snd ?ov \<noteq> []"
    unfolding sorted_desc_def by (metis length_sort length_0_conv)
  then obtain x xs where srt: "sorted_desc snd ?ov = x # xs"
    by (cases "sorted_desc snd ?ov") auto
  have "snd (hd (sorted_desc snd ?ov)) = Max (snd ` set ?ov)"
    using ovne by (rule hd_sorted_desc)
  then have x: "snd x = Max (snd ` set ?ov)" by (simp add: srt)
  show ?thesis
    using ne ovne pos
    by (simp add: analyze_outcome_skew_def Let_def outcome_volumes_total srt x)
qed

lemma bt_skew_score_positive_total:
  assumes pos: "0 < sum_list (map size_of trades)"
  shows "\<exists>d. bt_analyze_outcome_skew trades =
           Inr (min (\<bar>Max (snd ` set (outcome_volumes trades)) / sum_list (map size_of trades)
                      - 1 / 2\<bar> * 20) 10, d)"
proof -
  let ?ov = "outcome_volumes trades"
  let ?T = "sum_list (map size_of trades)"
  have ne: "trades \<noteq> []" using pos by auto
  then have ovne: "?ov \<noteq> []" by (rule outcome_volumes_nonempty)
  have "mono (\<lambda>v. v / ?T)"
    using pos by (intro monoI) (simp add: divide_right_mono)
  then have "Max (snd ` set ?ov) / ?T = Max ((\<lambda>v. v / ?T) ` snd ` set ?ov)"
    using ovne by (intro mono_Max_commute) auto
  then have "py_max (map (\<lambda>vol. vol / ?T) (map snd ?ov)) = Max (snd ` set ?ov) / ?T"
    using ovne by (simp add: py_max_is_Max image_image)
  then show ?thesis
    using ne ovne pos
    by (simp add: bt_analyze_outcome_skew_def Let_def outcome_volumes_total)
qed

text \<open>
  Claim C6, as stated, fails in its "exactly when": with the volume split 50/25/25 over
  three outcomes the largest share is one half and both skew functions return 0.
\<close>

theorem outcome_skew_counterexample:
  "outcome_volumes three_way = [(''YES'', 2), (''NO'', 1), (''MAYBE'', 1)] \<and>
   fst (analyze_outcome_skew three_way) = 0 \<and>
   bt_analyze_outcome_skew three_way =
     Inr (0, Some \<lparr>outcome_distribution =
                      [(''YES'', 1 / 2), (''NO'', 1 / 4), (''MAYBE'', 1 / 4)],
                    largest_outcome_share = 1 / 2\<rparr>)"
  by code_simp

text \<open>The sizes of \<open>half_split\<close> add up to the same real number on either side, yet the
  program accumulates \<open>1.4\<close> for \<open>YES\<close> and \<open>1.4000000000000001\<close> for \<open>NO\<close>, and scores
  \<open>2.2e-15\<close>: whether the sizes of a 50/50 split give a score of 0 depends on the order in
  which they are added. The amended claim is therefore stated on the volumes the program
  has accumulated.\<close>

lemma fl_1_10: "fl (1 / 10) = 3602879701896397 / 36028797018963968"
  by (simp add: fl_eval)

lemma fl_12_10: "fl (12 / 10) = 5404319552844595 / 4503599627370496"
  by (simp add: fl_eval)

lemma half_split_yes:
  "fl (fl (fl (0 + 3602879701896397 / 36028797018963968) + 3602879701896397 / 36028797018963968)
         + 5404319552844595 / 4503599627370496) = 3152519739159347 / 2251799813685248"
proof -
  have "fl (0 + 3602879701896397 / 36028797018963968) = 3602879701896397 / 36028797018963968"
    by (simp add: fl_eval)
  moreover have "fl (3602879701896397 / 36028797018963968 + 3602879701896397 / 36028797018963968)
      = 3602879701896397 / 18014398509481984"
    by (simp add: fl_eval)
  moreover have "fl (3602879701896397 / 18014398509481984 + 5404319552844595 / 4503599627370496)
      = 3152519739159347 / 2251799813685248"
    by (simp add: fl_eval)
  ultimately show ?thesis by (simp only:)
qed

lemma half_split_no:
  "fl (fl (fl (0 + 5404319552844595 / 4503599627370496) + 3602879701896397 / 36028797018963968)
         + 3602879701896397 / 36028797018963968) = 6305039478318695 / 4503599627370496"
proof -
  have "fl (0 + 5404319552844595 / 4503599627370496) = 5404319552844595 / 4503599627370496"
    by (simp add: fl_eval)
  moreover have "fl (5404319552844595 / 4503599627370496 + 3602879701896397 / 36028797018963968)
      = 5854679515581645 / 4503599627370496"
    by (simp add: fl_eval)
  moreover have "fl (5854679515581645 / 4503599627370496 + 3602879701896397 / 36028797018963968)
      = 6305039478318695 / 4503599627370496"
    by (simp add: fl_eval)
  ultimately show ?thesis by (simp only:)
qed

lemma half_split_volumes:
  "outcome_volumes_f64 half_split =
     [(''YES'', 3152519739159347 / 2251799813685248),
      (''NO'', 6305039478318695 / 4503599627370496)]"
proof -
  have "outcome_volumes_f64 half_split =
     [(''YES'', fl (fl (fl (0 + fl (1 / 10)) + fl (1 / 10)) + fl (12 / 10))),
      (''NO'', fl (fl (fl (0 + fl (12 / 10)) + fl (1 / 10)) + fl (1 / 10)))]"
    by (simp add: outcome_volumes_f64_def half_split_def mk_trade_def outcome_of_def size_of_def)
  then show ?thesis unfolding fl_1_10 fl_12_10 half_split_yes half_split_no .
qed

lemma half_split_total:
  "sum_f64 [3152519739159347 / 2251799813685248, 6305039478318695 / 4503599627370496]
     = 3152519739159347 / 1125899906842624"
  by (simp add: sum_f64_def fl_eval)

lemma half_split_share:
  "fl (6305039478318695 / 4503599627370496 / (3152519739159347 / 1125899906842624))
     = 4503599627370497 / 9007199254740992"
  by (simp add: fl_eval)

lemma half_split_distance:
  "fl (4503599627370497 / 9007199254740992 - 1 / 2) = 1 / 9007199254740992"
  by (simp add: fl_eval)

lemma half_split_times_20: "fl (\<bar>1 / 9007199254740992\<bar> * 20) = 5 / 2251799813685248"
  by (simp add: fl_eval)

lemma half_split_rounded:
  "sum_list (map size_of (filter (\<lambda>t. outcome_of t = ''YES'') half_split))
     = sum_list (map size_of (filter (\<lambda>t. outcome_of t = ''NO'') half_split)) \<and>
   analyze_outcome_skew_f64 half_split = 5 / 2251799813685248"
proof
  show "sum_list (map size_of (filter (\<lambda>t. outcome_of t = ''YES'') half_split))
     = sum_list (map size_of (filter (\<lambda>t. outcome_of t = ''NO'') half_split))"
    by (simp add: half_split_def mk_trade_def outcome_of_def size_of_def)
  have ne: "half_split \<noteq> []" by (simp add: half_split_def)
  have srt: "sorted_desc snd [(''YES'', 3152519739159347 / 2251799813685248 :: real),
                (''NO'', 6305039478318695 / 4503599627370496)]
             = [(''NO'', 6305039478318695 / 4503599627370496),
                (''YES'', 3152519739159347 / 2251799813685248)]"
    by (simp add: sorted_desc_def)
  have "analyze_outcome_skew_f64 half_split =
          min (fl (\<bar>fl (fl (6305039478318695 / 4503599627370496
                               / (3152519739159347 / 1125899906842624)) - 1 / 2)\<bar> * 20)) 10"
    using ne
    by (simp add: analyze_outcome_skew_f64_def half_split_volumes half_split_total srt Let_def)
  also have "\<dots> = 5 / 2251799813685248"
    unfolding half_split_share half_split_distance half_split_times_20 by simp
  finally show "analyze_outcome_skew_f64 half_split = 5 / 2251799813685248" .
qed

text \<open>
  Claim C6, amended. For every trade list whose accumulated outcome volumes have a positive
  total the two skew functions return the same score. The score is 0 exactly when the
  largest outcome share the functions compute, the largest accumulated volume divided by
  the total, is one half: so it is when the list has accumulated the same volume for
  exactly two outcomes (and also for a split such as 50/25/25). The score is 10 when every
  trade of non-zero size is on one outcome. Every quantity the statement names is one the
  functions compute themselves, so it reads the same for the rounded arithmetic.
\<close>

theorem outcome_skew_as_written:
  assumes pos: "0 < sum_list (map snd (outcome_volumes trades))"
  shows
   "(\<exists>d. bt_analyze_outcome_skew trades = Inr (fst (analyze_outcome_skew trades), d)) \<and>
    (fst (analyze_outcome_skew trades) = 0 \<longleftrightarrow>
       Max (snd ` set (outcome_volumes trades)) / sum_list (map snd (outcome_volumes trades))
         = 1 / 2) \<and>
    ((\<forall>t\<in>set trades. size_of t \<noteq> 0 \<longrightarrow> outcome_of t = l) \<longrightarrow>
       fst (analyze_outcome_skew trades) = 10) \<and>
    (outcome_volumes trades = [(a, v), (b, v)] \<longrightarrow> fst (analyze_outcome_skew trades) = 0)"
proof (intro conjI impI)
  let ?ov = "outcome_volumes trades"
  let ?T = "sum_list (map snd ?ov)"
  let ?M = "Max (snd ` set ?ov)"
  let ?vol = "\<lambda>k. sum_list (map size_of (filter (\<lambda>t. outcome_of t = k) trades))"
  have T: "?T = sum_list (map size_of trades)" by (rule outcome_volumes_total)
  have pos': "0 < sum_list (map size_of trades)" using pos by (simp only: T)
  have ne: "trades \<noteq> []" using pos' by auto
  then have ovne: "?ov \<noteq> []" by (rule outcome_volumes_nonempty)
  have score: "fst (analyze_outcome_skew trades) = min (\<bar>?M / ?T - 1 / 2\<bar> * 20) 10"
    using skew_score_positive_total[OF pos'] by (simp only: T)
  show "\<exists>d. bt_analyze_outcome_skew trades = Inr (fst (analyze_outcome_skew trades), d)"
    using bt_skew_score_positive_total[OF pos'] score by (simp only: T)
  have zero: "fst (analyze_outcome_skew trades) = 0 \<longleftrightarrow> ?M / ?T = 1 / 2"
  proof -
    have "fst (analyze_outcome_skew trades) = 0 \<longleftrightarrow> \<bar>?M / ?T - 1 / 2\<bar> * 20 = 0"
      unfolding score by (auto simp: min_def)
    also have "\<dots> \<longleftrightarrow> ?M / ?T = 1 / 2" by simp
    finally show ?thesis .
  qed
  show "fst (analyze_outcome_skew trades) = 0 \<longleftrightarrow> ?M / ?T = 1 / 2" by (rule zero)
  have entries: "\<And>k v. (k, v) \<in> set ?ov \<Longrightarrow> v = ?vol k"
    by (rule outcome_volumes_entry)
  have keys: "fst ` set ?ov = outcome_of ` set trades"
    using outcome_volumes_keys[of trades] by simp
  {
    assume one: "\<forall>t\<in>set trades. size_of t \<noteq> 0 \<longrightarrow> outcome_of t = l"
    have other: "?vol k = 0" if "k \<noteq> l" for k
      using one that by (intro sum_list_all_zero) auto
    have "sum_list (map size_of (filter (\<lambda>t. \<not> outcome_of t = l) trades)) = 0"
      using one by (intro sum_list_all_zero) auto
    then have vl: "?vol l = ?T"
      using sum_list_filter_split[of size_of trades "\<lambda>t. outcome_of t = l"] by (simp add: T)
    then have "\<exists>t\<in>set trades. outcome_of t = l"
      using pos by (intro sum_list_filter_nonzero[of size_of]) simp
    then have "l \<in> fst ` set ?ov" using keys by auto
    then obtain v where lv: "(l, v) \<in> set ?ov" by auto
    then have "v = ?T" using entries vl by simp
    then have mem: "?T \<in> snd ` set ?ov" using lv by force
    have "\<forall>v\<in>snd ` set ?ov. v \<le> ?T"
    proof
      fix v assume "v \<in> snd ` set ?ov"
      then obtain k where "(k, v) \<in> set ?ov" by auto
      then have "v = ?vol k" by (rule entries)
      then show "v \<le> ?T" using other[of k] vl pos by (cases "k = l") auto
    qed
    then have "?M = ?T" using mem by (intro Max_eqI) auto
    then show "fst (analyze_outcome_skew trades) = 10"
      unfolding score using pos by simp
  }
  {
    assume two: "?ov = [(a, v), (b, v)]"
    then have "?M = v" and "?T = v + v" by simp_all
    moreover from this pos have "0 < v" by simp
    ultimately have "?M / ?T = 1 / 2" by simp
    then show "fst (analyze_outcome_skew trades) = 0" using zero by simp
  }
qed

theorem outcome_skew_as_written_witness:
  "0 < sum_list (map snd (outcome_volumes two_same_time)) \<and>
   outcome_volumes two_same_time = [(''YES'', 1), (''NO'', 1)] \<and>
   fst (analyze_outcome_skew two_same_time) = 0 \<and>
   (\<exists>d. bt_analyze_outcome_skew two_same_time = Inr (0, d)) \<and>
   Max (snd ` set (outcome_volumes two_same_time))
     / sum_list (map snd (outcome_volumes two_same_time)) = 1 / 2 \<and>
   0 < sum_list (map snd (outcome_volumes ten_trades)) \<and>
   fst (analyze_outcome_skew ten_trades) = 10"
proof -
  have v2: "outcome_volumes two_same_time = [(''YES'', 1), (''NO'', 1)]"
    by (simp add: outcome_volumes_def two_same_time_def mk_trade_def outcome_of_def size_of_def)
  have p2: "0 < sum_list (map snd (outcome_volumes two_same_time))"
    by (simp add: v2)
  have p10: "0 < sum_list (map snd (outcome_volumes ten_trades))" by code_simp
  have h10: "\<forall>t\<in>set ten_trades. size_of t \<noteq> 0 \<longrightarrow> outcome_of t = ''YES''"
    by (auto simp: ten_trades_def mk_trade_def outcome_of_def)
  note two = outcome_skew_as_written[OF p2, of _ "''YES''" 1 "''NO''"]
  from two v2 have z: "fst (analyze_outcome_skew two_same_time) = 0" by blast
  from two have b: "\<exists>d. bt_analyze_outcome_skew two_same_time
                  = Inr (fst (analyze_outcome_skew two_same_time), d)"
    by blast
  from two z have m: "Max (snd ` set (outcome_volumes two_same_time))
     / sum_list (map snd (outcome_volumes two_same_time)) = 1 / 2"
    by blast
  from outcome_skew_as_written[OF p10, of "''YES''"] h10
  have t: "fst (analyze_outcome_skew ten_trades) = 10" by blast
  from p2 v2 z b m p10 t show ?thesis by simp
qed

section \<open>The signal-point finder\<close>

lemma signal_scan_append:
  "signal_scan S (xs @ ys) st =
     (case signal_scan S xs st of Inl e \<Rightarrow> Inl e | Inr st' \<Rightarrow> signal_scan S ys st')"
proof (induction xs arbitrary: st)
  case Nil
  then show ?case by simp
next
  case (Cons i xs)
  obtain m t where st: "st = (m, t)" by (cases st)
  show ?case unfolding st using Cons.IH by (simp split: sum.splits)
qed

lemma signal_scan_keeps:
  assumes "\<forall>i\<in>set idxs. \<exists>s. window_signal (take i S) = Inr s \<and> s \<le> m"
  shows "signal_scan S idxs (m, t) = Inr (m, t)"
  using assms by (induction idxs) auto

lemma signal_scan_below:
  assumes "\<forall>i\<in>set idxs. \<exists>s. window_signal (take i S) = Inr s \<and> s < x" "m < x"
  shows "\<exists>m' t'. signal_scan S idxs (m, t) = Inr (m', t') \<and> m' < x"
  using assms
proof (induction idxs arbitrary: m t)
  case Nil
  then show ?case by simp
next
  case (Cons i idxs)
  from Cons.prems(1) obtain s where s: "window_signal (take i S) = Inr s" "s < x" by auto
  from Cons.prems(1) have rest: "\<forall>i\<in>set idxs. \<exists>s. window_signal (take i S) = Inr s \<and> s < x"
    by simp
  show ?case
  proof (cases "s > m")
    case True
    from Cons.IH[OF rest s(2), of "Some (timestamp_of (S ! i))"] True s(1)
    show ?thesis by simp
  next
    case False
    from Cons.IH[OF rest Cons.prems(2), of t] False s(1)
    show ?thesis by simp
  qed
qed

lemma signal_scan_first_maximum:
  assumes pre: "\<forall>j\<in>set pre. \<exists>s. window_signal (take j S) = Inr s \<and> s < x"
    and i: "window_signal (take i S) = Inr x" "m < x"
    and post: "\<forall>j\<in>set post. \<exists>s. window_signal (take j S) = Inr s \<and> s \<le> x"
  shows "signal_scan S (pre @ i # post) (m, t) = Inr (x, Some (timestamp_of (S ! i)))"
proof -
  from signal_scan_below[OF pre i(2), of t] obtain m' t' where
    1: "signal_scan S pre (m, t) = Inr (m', t')" "m' < x" by blast
  have "signal_scan S (i # post) (m', t') = signal_scan S post (x, Some (timestamp_of (S ! i)))"
    using i(1) 1(2) by simp
  also have "\<dots> = Inr (x, Some (timestamp_of (S ! i)))"
    using post by (rule signal_scan_keeps)
  finally show ?thesis using 1(1) by (simp add: signal_scan_append)
qed

text \<open>
  Claim C1, as stated, fails. The scan runs over \<open>range(10, len(trades_sorted))\<close>, so the
  longest prefix has one trade less than the list, and it records the timestamp of
  \<open>trades_sorted[i]\<close>, the first trade after the prefix. For exactly ten trades no prefix
  is scanned and the result is \<open>(None, 0)\<close>, although the prefix of length 10 has the
  aggregate 0.60025 and its last trade the timestamp 9. For the twelve trades the maximum
  is at the prefix of length 10, whose last trade has the timestamp 9; the timestamp
  returned is 10, that of the eleventh trade.
\<close>

theorem find_signal_point_counterexample:
  "find_signal_point ten_trades = Inr (None, Some 0) \<and>
   window_signal (take 10 (sort_key timestamp_of ten_trades)) = Inr (2401 / 4000) \<and>
   timestamp_of (last (take 10 (sort_key timestamp_of ten_trades))) = 9 \<and>
   find_signal_point twelve_trades = Inr (Some 10, Some (2401 / 4000)) \<and>
   window_signal (take 10 (sort_key timestamp_of twelve_trades)) = Inr (2401 / 4000) \<and>
   timestamp_of (last (take 10 (sort_key timestamp_of twelve_trades))) = 9"
  by code_simp

text \<open>
  Claim C1, amended. For every list of at least 10 trades in which no scanned window has
  zero total volume, \<open>find_signal_point\<close> sorts the trades ascending by timestamp (stably),
  computes for each prefix length \<open>i\<close> from 10 to \<open>len(trades) - 1\<close> the backtester's
  aggregate over \<open>trades_sorted[0:i]\<close>, and returns the maximum together with the timestamp
  of \<open>trades_sorted[i]\<close>, the first trade after the maximising prefix; of several maximal
  prefixes the first wins. When no prefix has a positive aggregate (in particular for
  exactly 10 trades) it returns \<open>(None, 0)\<close>. In the statement \<open>sig i\<close> is the aggregate of
  the prefix of length \<open>i\<close>.
\<close>

theorem find_signal_point_as_written:
  assumes len: "10 \<le> length trades"
    and win: "\<forall>i. 10 \<le> i \<and> i < length trades \<longrightarrow>
                window_signal (take i (sort_key timestamp_of trades)) = Inr (sig i)"
  shows "sorted (map timestamp_of (sort_key timestamp_of trades)) \<and>
    (\<forall>k. filter (\<lambda>t. timestamp_of t = k) (sort_key timestamp_of trades)
           = filter (\<lambda>t. timestamp_of t = k) trades) \<and>
    ((\<forall>i. 10 \<le> i \<and> i < length trades \<longrightarrow> sig i \<le> 0) \<longrightarrow>
       find_signal_point trades = Inr (None, Some 0)) \<and>
    (\<forall>i. 10 \<le> i \<and> i < length trades \<and> 0 < sig i \<and>
         (\<forall>j. 10 \<le> j \<and> j < i \<longrightarrow> sig j < sig i) \<and>
         (\<forall>j. i < j \<and> j < length trades \<longrightarrow> sig j \<le> sig i) \<longrightarrow>
       find_signal_point trades =
         Inr (Some (timestamp_of (sort_key timestamp_of trades ! i)), Some (sig i)))"
proof (intro conjI allI impI)
  let ?S = "sort_key timestamp_of trades"
  let ?n = "length trades"
  show "sorted (map timestamp_of ?S)" by simp
  show "filter (\<lambda>t. timestamp_of t = k) ?S = filter (\<lambda>t. timestamp_of t = k) trades" for k
    by (rule sort_key_stable)
  have fsp: "find_signal_point trades =
      (case signal_scan ?S [10..<?n] (0, None) of
         Inl e \<Rightarrow> Inl e
       | Inr (mx, ts) \<Rightarrow> Inr (ts, Some mx))"
    using len by (simp add: find_signal_point_def Let_def)
  {
    assume "\<forall>i. 10 \<le> i \<and> i < ?n \<longrightarrow> sig i \<le> 0"
    then have "\<forall>i\<in>set [10..<?n]. \<exists>s. window_signal (take i ?S) = Inr s \<and> s \<le> 0"
      using win by auto
    then have "signal_scan ?S [10..<?n] (0, None) = Inr (0, None)"
      by (rule signal_scan_keeps)
    then show "find_signal_point trades = Inr (None, Some 0)"
      by (simp add: fsp)
  }
  {
    fix i
    assume a: "10 \<le> i \<and> i < ?n \<and> 0 < sig i \<and>
         (\<forall>j. 10 \<le> j \<and> j < i \<longrightarrow> sig j < sig i) \<and>
         (\<forall>j. i < j \<and> j < ?n \<longrightarrow> sig j \<le> sig i)"
    then have split: "[10..<?n] = [10..<i] @ i # [Suc i..<?n]"
      by (metis upt_add_eq_append upt_conv_Cons le_Suc_ex less_imp_le_nat)
    have pre: "\<forall>j\<in>set [10..<i]. \<exists>s. window_signal (take j ?S) = Inr s \<and> s < sig i"
      using a win by auto
    have post: "\<forall>j\<in>set [Suc i..<?n]. \<exists>s. window_signal (take j ?S) = Inr s \<and> s \<le> sig i"
      using a win by auto
    have at: "window_signal (take i ?S) = Inr (sig i)" using a win by simp
    have "signal_scan ?S [10..<?n] (0, None) = Inr (sig i, Some (timestamp_of (?S ! i)))"
      unfolding split using pre at _ post by (rule signal_scan_first_maximum) (use a in simp)
    then show "find_signal_point trades = Inr (Some (timestamp_of (?S ! i)), Some (sig i))"
      by (simp add: fsp)
  }
qed

lemma window_signal_twelve:
  "window_signal (take 10 (sort_key timestamp_of twelve_trades)) = Inr (sig_twelve 10)"
  "window_signal (take 11 (sort_key timestamp_of twelve_trades)) = Inr (sig_twelve 11)"
  by code_simp+

theorem find_signal_point_as_written_witness:
  "find_signal_point twelve_trades =
     Inr (Some (timestamp_of (sort_key timestamp_of twelve_trades ! 10)), Some (2401 / 4000)) \<and>
   timestamp_of (sort_key timestamp_of twelve_trades ! 10) = 10 \<and>
   find_signal_point ten_trades = Inr (None, Some 0)"
proof -
  have l12: "length twelve_trades = 12" and l10: "length ten_trades = 10"
    by (simp_all add: twelve_trades_def ten_trades_def)
  have w12: "\<forall>i. 10 \<le> i \<and> i < length twelve_trades \<longrightarrow>
      window_signal (take i (sort_key timestamp_of twelve_trades)) = Inr (sig_twelve i)"
  proof (intro allI impI)
    fix i assume "10 \<le> i \<and> i < length twelve_trades"
    then have "i = 10 \<or> i = 11" using l12 by auto
    then show "window_signal (take i (sort_key timestamp_of twelve_trades)) = Inr (sig_twelve i)"
      using window_signal_twelve by auto
  qed
  have w10: "\<forall>i. 10 \<le> i \<and> i < length ten_trades \<longrightarrow>
      window_signal (take i (sort_key timestamp_of ten_trades)) = Inr (sig_twelve i)"
    using l10 by auto
  have ts: "timestamp_of (sort_key timestamp_of twelve_trades ! 10) = 10"
    by code_simp
  have best: "10 \<le> (10::nat) \<and> 10 < length twelve_trades \<and> 0 < sig_twelve 10 \<and>
      (\<forall>j. 10 \<le> j \<and> j < 10 \<longrightarrow> sig_twelve j < sig_twelve 10) \<and>
      (\<forall>j. 10 < j \<and> j < length twelve_trades \<longrightarrow> sig_twelve j \<le> sig_twelve 10)"
    using l12 by (simp add: sig_twelve_def)
  have len12: "10 \<le> length twelve_trades" and len10: "10 \<le> length ten_trades"
    using l12 l10 by simp_all
  have none10: "\<forall>i. 10 \<le> i \<and> i < length ten_trades \<longrightarrow> sig_twelve i \<le> 0"
    using l10 by auto
  note main12 = find_signal_point_as_written[OF len12 w12]
  note main10 = find_signal_point_as_written[OF len10 w10]
  have a: "find_signal_point twelve_trades =
      Inr (Some (timestamp_of (sort_key timestamp_of twelve_trades ! 10)), Some (sig_twelve 10))"
    by (rule main12[THEN conjunct2, THEN conjunct2, THEN conjunct2, THEN spec, of 10, THEN mp,
          OF best])
  have b: "find_signal_point ten_trades = Inr (None, Some 0)"
    by (rule main10[THEN conjunct2, THEN conjunct2, THEN conjunct1, THEN mp, OF none10])
  have s10: "sig_twelve 10 = 2401 / 4000" by (simp add: sig_twelve_def)
  show ?thesis
    using a b ts unfolding s10 by (intro conjI)
qed

section \<open>Zero total volume\<close>

text \<open>
  Claim C3 at a list of one trade of size 0. Both concentration functions divide every
  address volume by the total volume, here 0, and raise \<open>ZeroDivisionError\<close>; no score is
  returned.
\<close>

theorem concentration_raises_on_zero_volume:
  "analyze_position_concentration [zero_trade] = Inl ZeroDivisionError \<and>
   bt_analyze_position_concentration [zero_trade] = Inl ZeroDivisionError"
  by code_simp

text \<open>The detector's concentration score has no cap at its return, and the whale scores
  have no floor: with a negative size they leave the interval from 0 to 10.\<close>

lemma scores_outside_range_on_negative_size:
  "map_sum id fst (analyze_position_concentration negative_trades) = Inr 25"
  "fst (analyze_whale_accumulation
         [mk_trade ''a'' ''YES'' (- 5) 0 (1 / 2), mk_trade ''a'' ''YES'' (- 5) 1 (1 / 2)])
     = - (1 / 10)"
  "fst (bt_analyze_whale_accumulation
         [mk_trade ''a'' ''YES'' (- 5) 0 (1 / 2), mk_trade ''a'' ''YES'' (- 5) 1 (1 / 2)])
     = - (1 / 100)"
  by code_simp+

text \<open>
  Claim C8 at the eleven trades of \<open>zero_before\<close>. The signal point is found at second 5;
  no trade lies within 300 seconds of second 3605, so the post-signal price cannot be
  resolved. The trades before the signal all have size 0, the concentration indicator
  raises on them, and \<open>backtest_market\<close> ends with \<open>ZeroDivisionError\<close> before it reaches
  the price check.
\<close>

theorem backtest_market_raises_before_price_check:
  "find_signal_point zero_before = Inr (Some 5, Some (24007 / 40000)) \<and>
   get_market_price_at_timestamp (get_trades_before_timestamp zero_before 5) 5 = Some (1 / 2) \<and>
   get_market_price_at_timestamp zero_before (5 + 3600) = None \<and>
   bt_analyze_position_concentration (get_trades_before_timestamp zero_before 5)
     = Inl ZeroDivisionError \<and>
   backtest_market (\<lambda>_. zero_before) (\<lambda>_. no_history) 0 market_m = Inl ZeroDivisionError"
  by code_simp

text \<open>Where no indicator raises, the price check works as claim C8 says: a result is never
  partial, and an unresolved price gives \<open>None\<close>.\<close>

lemma backtest_market_never_partial:
  assumes "backtest_market f h now m = Inr (Some r)"
  shows "\<exists>pre post.
     get_market_price_at_timestamp
       (get_trades_before_timestamp (f (market_id r)) (signal_timestamp r)) (signal_timestamp r)
       = Some pre \<and>
     get_market_price_at_timestamp (f (market_id r)) (signal_timestamp r + 3600) = Some post \<and>
     pre_signal_price r = py_round 4 pre \<and> post_signal_price r = py_round 4 post"
  using assms by (elim backtest_market_shape) simp

lemma backtest_market_price_guard:
  assumes "m_id m = Some mid" "mid \<noteq> []"
    and "find_signal_point (f mid) = Inr (Some ts, p)"
    and "bt_analyze_position_concentration (get_trades_before_timestamp (f mid) ts) = Inr c"
    and "bt_analyze_outcome_skew (get_trades_before_timestamp (f mid) ts) = Inr s"
    and "get_market_price_at_timestamp (get_trades_before_timestamp (f mid) ts) ts = None \<or>
         get_market_price_at_timestamp (f mid) (ts + 3600) = None"
  shows "backtest_market f h now m = Inr None"
  using assms unfolding backtest_market_def Let_def
  by (auto split: prod.splits option.splits)

section \<open>Trades that lack an address or a size\<close>

lemma sum_list_dict:
  "distinct (map fst d) \<Longrightarrow>
     sum_list (map g (map snd d)) = (\<Sum>k\<in>set (map fst d). (g (dict_val d k) :: real))"
proof (induction d)
  case Nil
  then show ?case by simp
next
  case (Cons kv d)
  obtain k v where kv: "kv = (k, v)" by (cases kv)
  from Cons.prems have nk: "k \<notin> set (map fst d)" and dd: "distinct (map fst d)"
    by (simp_all add: kv)
  have same: "(\<Sum>k'\<in>set (map fst d). g (dict_val ((k, v) # d) k'))
            = (\<Sum>k'\<in>set (map fst d). g (dict_val d k'))"
  proof (rule sum.cong)
    fix k' assume "k' \<in> set (map fst d)"
    then have "k' \<noteq> k" using nk by auto
    then show "g (dict_val ((k, v) # d) k') = g (dict_val d k')"
      by (simp add: dict_val_def)
  qed simp
  have "(\<Sum>k'\<in>set (map fst (kv # d)). g (dict_val (kv # d) k'))
      = g (dict_val ((k, v) # d) k) + (\<Sum>k'\<in>set (map fst d). g (dict_val ((k, v) # d) k'))"
    using nk by (simp add: kv)
  also have "\<dots> = g v + (\<Sum>k'\<in>set (map fst d). g (dict_val d k'))"
    unfolding same by (simp add: dict_val_def)
  finally show ?case using Cons.IH[OF dd] by (simp add: kv)
qed

lemma dict_val_absent: "k \<notin> set (map fst d) \<Longrightarrow> dict_val d k = 0"
  by (simp add: dict_val_def map_of_eq_None_iff[THEN iffD2])

lemma address_volumes_keys: "set (map fst (address_volumes trades)) = address_of ` set trades"
  unfolding address_volumes_def by (simp add: grouped_keys del: set_map)

lemma address_volumes_distinct: "distinct (map fst (address_volumes trades))"
  unfolding address_volumes_def by (rule grouped_distinct) simp

lemma address_volumes_total:
  "sum_list (map snd (address_volumes trades)) = sum_list (map size_of trades)"
  unfolding address_volumes_def by (simp add: grouped_sum)

lemma address_volumes_val:
  "dict_val (address_volumes trades) a
     = sum_list (map size_of (filter (\<lambda>t. address_of t = a) trades))"
  unfolding address_volumes_def by (simp add: grouped_val) (simp add: dict_val_def)

lemma address_volumes_nonempty: "trades \<noteq> [] \<Longrightarrow> address_volumes trades \<noteq> []"
  using address_volumes_keys[of trades] by (cases "address_volumes trades") auto

lemma herfindahl_zero_size:
  assumes "size_of t = 0"
  shows "herfindahl_of (address_volumes (xs @ t # ys)) = herfindahl_of (address_volumes (xs @ ys))"
proof -
  let ?d = "address_volumes (xs @ t # ys)" and ?d' = "address_volumes (xs @ ys)"
  let ?T = "sum_list (map size_of (xs @ ys))"
  let ?g = "\<lambda>v. (v / ?T) ^ 2"
  have T: "sum_list (map snd ?d) = ?T" "sum_list (map snd ?d') = ?T"
    using assms by (simp_all add: address_volumes_total)
  have val: "dict_val ?d k = dict_val ?d' k" for k
    using assms by (simp add: address_volumes_val)
  have keys: "set (map fst ?d) = insert (address_of t) (set (map fst ?d'))"
    by (simp add: address_volumes_keys del: set_map)
  have "herfindahl_of ?d = (\<Sum>k\<in>set (map fst ?d). ?g (dict_val ?d k))"
    unfolding herfindahl_of_def T
    using sum_list_dict[OF address_volumes_distinct, of ?g "xs @ t # ys"]
    by (simp add: comp_def)
  also have "\<dots> = (\<Sum>k\<in>insert (address_of t) (set (map fst ?d')). ?g (dict_val ?d' k))"
    by (simp only: keys val)
  also have "\<dots> = (\<Sum>k\<in>set (map fst ?d'). ?g (dict_val ?d' k))"
  proof (cases "address_of t \<in> set (map fst ?d')")
    case True
    then show ?thesis by (simp add: insert_absorb)
  next
    case False
    then show ?thesis by (simp add: dict_val_absent del: set_map)
  qed
  also have "\<dots> = herfindahl_of ?d'"
    unfolding herfindahl_of_def T
    using sum_list_dict[OF address_volumes_distinct, of ?g "xs @ ys"]
    by (simp add: comp_def)
  finally show ?thesis .
qed

lemma bt_concentration_score:
  assumes "sum_list (map size_of trades) \<noteq> 0"
  shows "map_sum id fst (bt_analyze_position_concentration trades)
           = Inr (min (herfindahl_of (address_volumes trades) * 10) 10)"
proof -
  have ne: "trades \<noteq> []" using assms by auto
  then have "address_volumes trades \<noteq> []" by (rule address_volumes_nonempty)
  then show ?thesis
    using ne assms
    by (simp add: bt_analyze_position_concentration_def Let_def address_volumes_total
        herfindahl_of_def)
qed


lemma dict_add_nonempty: "dict_add j v d \<noteq> []"
  by (induction j v d rule: dict_add.induct) auto

lemma dict_add2_key_set: "set (map fst (dict_add2 k j v d)) = insert k (set (map fst d))"
  by (induction k j v d rule: dict_add2.induct) auto

lemma dict_add2_entries_nonempty:
  "\<forall>e\<in>set d. snd e \<noteq> [] \<Longrightarrow> \<forall>e\<in>set (dict_add2 k j v d). snd e \<noteq> []"
  by (induction k j v d rule: dict_add2.induct) (auto simp: dict_add_nonempty)

lemma grouped2_props:
  "\<forall>e\<in>set d0. snd e \<noteq> [] \<Longrightarrow>
   set (map fst (foldl (\<lambda>d t. dict_add2 (key t) (key2 t) (val t) d) d0 ts))
     = set (map fst d0) \<union> key ` set ts \<and>
   (\<forall>e\<in>set (foldl (\<lambda>d t. dict_add2 (key t) (key2 t) (val t) d) d0 ts). snd e \<noteq> [])"
proof (induction ts arbitrary: d0)
  case Nil
  then show ?case by simp
next
  case (Cons t ts)
  have "\<forall>e\<in>set (dict_add2 (key t) (key2 t) (val t) d0). snd e \<noteq> []"
    using Cons.prems by (rule dict_add2_entries_nonempty)
  from Cons.IH[OF this] show ?case
    by (simp add: dict_add2_key_set del: set_map)
qed

lemma top_address_entry_defined:
  assumes "a \<in> address_of ` set trades"
  shows "\<exists>y. top_address_entry (address_outcomes trades) (a, v) = Inr y"
proof -
  let ?ao = "address_outcomes trades"
  have props: "set (map fst ?ao) = address_of ` set trades" "\<forall>e\<in>set ?ao. snd e \<noteq> []"
    unfolding address_outcomes_def
    using grouped2_props[of "[]" address_of outcome_of size_of trades] by simp_all
  then have "a \<in> fst ` set ?ao" using assms by simp
  then obtain e where e: "map_of ?ao a = Some e"
    by (cases "map_of ?ao a") (auto simp: map_of_eq_None_iff)
  then have "(a, e) \<in> set ?ao" by (rule map_of_SomeD)
  then have "e \<noteq> []" using props(2) by auto
  then show ?thesis
    using e by (cases e) (simp_all add: top_address_entry_def)
qed

lemma collect_defined:
  "\<forall>x\<in>set xs. \<exists>y. f x = Inr y \<Longrightarrow> \<exists>ys. collect f xs = Inr ys"
  by (induction xs) auto

lemma concentration_score:
  assumes "sum_list (map size_of trades) \<noteq> 0"
  shows "map_sum id fst (analyze_position_concentration trades)
           = Inr (herfindahl_of (address_volumes trades) * 10)"
proof -
  let ?av = "address_volumes trades"
  have ne: "trades \<noteq> []" using assms by auto
  then have avne: "?av \<noteq> []" by (rule address_volumes_nonempty)
  have "\<forall>x\<in>set (take 5 (sorted_desc snd ?av)).
          \<exists>y. top_address_entry (address_outcomes trades) x = Inr y"
  proof
    fix x assume "x \<in> set (take 5 (sorted_desc snd ?av))"
    then have "x \<in> set ?av"
      unfolding sorted_desc_def using set_take_subset by fastforce
    then have "fst x \<in> address_of ` set trades"
      using address_volumes_keys[of trades] by auto
    from top_address_entry_defined[OF this, of "snd x"]
    show "\<exists>y. top_address_entry (address_outcomes trades) x = Inr y" by simp
  qed
  then obtain tops where
    "collect (top_address_entry (address_outcomes trades)) (take 5 (sorted_desc snd ?av))
       = Inr tops"
    using collect_defined by blast
  then show ?thesis
    using ne avne assms
    by (simp add: analyze_position_concentration_def Let_def address_volumes_total
        herfindahl_of_def)
qed

lemma dict_append_keys:
  "map fst (dict_append k v d) = (if k \<in> set (map fst d) then map fst d else map fst d @ [k])"
  by (induction k v d rule: dict_append.induct) (auto simp: rev_image_eqI)

lemma list_val_append:
  "list_val (dict_append k v d) k' = list_val d k' @ (if k' = k then [v] else [])"
  by (induction k v d rule: dict_append.induct) (auto simp: list_val_def)

lemma grouped_list_distinct:
  "distinct (map fst d0) \<Longrightarrow>
     distinct (map fst (foldl (\<lambda>d t. dict_append (key t) (val t) d) d0 ts))"
  by (induction ts arbitrary: d0) (auto simp: dict_append_keys)

lemma grouped_list_val:
  "list_val (foldl (\<lambda>d t. dict_append (key t) (val t) d) d0 ts) k
     = list_val d0 k @ map val (filter (\<lambda>t. key t = k) ts)"
  by (induction ts arbitrary: d0) (auto simp: list_val_append)

lemma grouped_list_entry:
  assumes "(k, l) \<in> set (foldl (\<lambda>d t. dict_append (key t) (val t) d) [] ts)"
  shows "l = map val (filter (\<lambda>t. key t = k) ts)"
proof -
  let ?d = "foldl (\<lambda>d t. dict_append (key t) (val t) d) [] ts"
  have "distinct (map fst ?d)" by (rule grouped_list_distinct) simp
  then have "list_val ?d k = l" using assms by (simp add: list_val_def)
  then show ?thesis by (simp add: grouped_list_val) (simp add: list_val_def)
qed

text \<open>
  Claim C9, as stated, fails. No indicator skips a trade for a missing field: a trade with
  neither \<open>maker\<close> nor \<open>taker\<close> forms the address group \<open>unknown\<close> and halves the
  concentration score of the other trade; a trade without \<open>size\<close> is a second trade of
  its address and turns that address into a whale.
\<close>

theorem missing_fields_counterexample:
  "address_volumes [trade_a10, no_address_trade] = [(''a'', 10), (''unknown'', 10)] \<and>
   map_sum id fst (analyze_position_concentration [trade_a10]) = Inr 10 \<and>
   map_sum id fst (analyze_position_concentration [trade_a10, no_address_trade]) = Inr 5 \<and>
   map_sum id fst (bt_analyze_position_concentration [trade_a10]) = Inr 10 \<and>
   map_sum id fst (bt_analyze_position_concentration [trade_a10, no_address_trade]) = Inr 5 \<and>
   fst (analyze_whale_accumulation [big_trade]) = 0 \<and>
   fst (analyze_whale_accumulation [big_trade, no_size_trade]) = 10 \<and>
   fst (bt_analyze_whale_accumulation [big_trade]) = 0 \<and>
   fst (bt_analyze_whale_accumulation [big_trade, no_size_trade]) = 5"
  by code_simp

lemma dict_add_zero_present: "k \<in> set (map fst d) \<Longrightarrow> dict_add k 0 d = d"
  by (induction k "0::real" d rule: dict_add.induct) auto

lemma address_volumes_zero_size_seen:
  assumes "size_of t = 0" "address_of t \<in> address_of ` set xs"
  shows "address_volumes (xs @ t # ys) = address_volumes (xs @ ys)"
proof -
  have "address_of t \<in> set (map fst (address_volumes xs))"
    using assms(2) address_volumes_keys[of xs] by simp
  then have "dict_add (address_of t) (size_of t) (address_volumes xs) = address_volumes xs"
    unfolding assms(1) by (rule dict_add_zero_present)
  then show ?thesis by (simp add: address_volumes_def)
qed

lemma concentration_zero_total:
  assumes "trades \<noteq> []" "sum_list (map size_of trades) = 0"
  shows "analyze_position_concentration trades = Inl ZeroDivisionError"
  using assms address_volumes_nonempty[OF assms(1)]
  by (simp add: analyze_position_concentration_def Let_def address_volumes_total)

lemma concentration_score_depends_on_volumes:
  assumes "address_volumes ts = address_volumes ts'" "ts \<noteq> []" "ts' \<noteq> []"
  shows "map_sum id fst (analyze_position_concentration ts)
           = map_sum id fst (analyze_position_concentration ts')"
proof (cases "sum_list (map size_of ts) = 0")
  case True
  then have "sum_list (map size_of ts') = 0"
    using assms(1) address_volumes_total[of ts] address_volumes_total[of ts'] by simp
  with True assms show ?thesis by (simp add: concentration_zero_total)
next
  case False
  then have "sum_list (map size_of ts') \<noteq> 0"
    using assms(1) address_volumes_total[of ts] address_volumes_total[of ts'] by simp
  with False show ?thesis by (simp add: concentration_score assms(1))
qed

text \<open>
  Claim C9, amended. In the grouping loops of the concentration and whale indicators a
  trade is not skipped for lacking an address or a size. A trade with neither maker nor
  taker is grouped under the address \<open>unknown\<close>: that address is a key of the volume
  dictionary, and processing the trade adds its size to the entry. A trade without a size
  is counted with size 0: it changes no address's volume, and when its address has
  occurred in an earlier trade the volume dictionary is the same with and without the
  trade, and so are the results of the backtester's concentration indicator and the score
  or the error of the detector's. (A size-less trade that is the first of its address
  opens an entry of volume 0 at its place in the dictionary, which changes the order in
  which the volumes are summed.) Equal dictionaries are summed in the same order, so the
  statement does not depend on how the sums are rounded. In the whale indicators the
  trade list of an address holds every trade of that address, with or without a size.
\<close>

theorem missing_fields_as_written:
  "(maker t = None \<and> taker t = None \<longrightarrow>
      address_of t = ''unknown'' \<and>
      ''unknown'' \<in> fst ` set (address_volumes (xs @ t # ys)) \<and>
      dict_val (address_volumes (xs @ [t])) ''unknown''
        = dict_val (address_volumes xs) ''unknown'' + size_of t) \<and>
   (trade_size t = None \<longrightarrow>
      (\<forall>a. dict_val (address_volumes (xs @ t # ys)) a = dict_val (address_volumes (xs @ ys)) a) \<and>
      (address_of t \<in> address_of ` set xs \<longrightarrow>
         address_volumes (xs @ t # ys) = address_volumes (xs @ ys) \<and>
         bt_analyze_position_concentration (xs @ t # ys)
           = bt_analyze_position_concentration (xs @ ys) \<and>
         map_sum id fst (analyze_position_concentration (xs @ t # ys))
           = map_sum id fst (analyze_position_concentration (xs @ ys)))) \<and>
   (\<forall>a l. (a, l) \<in> set (bt_address_trades trades) \<longrightarrow>
      l = map size_of (filter (\<lambda>t. address_of t = a) trades)) \<and>
   (\<forall>a l. (a, l) \<in> set (address_trades trades) \<longrightarrow>
      l = map (\<lambda>t. (size_of t, timestamp_of t, price_of t))
            (filter (\<lambda>t. address_of t = a) trades))"
proof (intro conjI impI allI)
  assume "maker t = None \<and> taker t = None"
  then show u: "address_of t = ''unknown''" by (simp add: address_of_def)
  then show "''unknown'' \<in> fst ` set (address_volumes (xs @ t # ys))"
    using address_volumes_keys[of "xs @ t # ys"] by auto
  from u show "dict_val (address_volumes (xs @ [t])) ''unknown''
        = dict_val (address_volumes xs) ''unknown'' + size_of t"
    by (simp add: address_volumes_val)
next
  fix a assume "trade_size t = None"
  then have "size_of t = 0" by (simp add: size_of_def)
  then show "dict_val (address_volumes (xs @ t # ys)) a = dict_val (address_volumes (xs @ ys)) a"
    by (simp add: address_volumes_val)
next
  assume "trade_size t = None" and seen: "address_of t \<in> address_of ` set xs"
  then have z: "size_of t = 0" by (simp add: size_of_def)
  show av: "address_volumes (xs @ t # ys) = address_volumes (xs @ ys)"
    using z seen by (rule address_volumes_zero_size_seen)
  have ne: "xs \<noteq> []" using seen by auto
  then show "bt_analyze_position_concentration (xs @ t # ys)
           = bt_analyze_position_concentration (xs @ ys)"
    by (simp add: bt_analyze_position_concentration_def av)
  show "map_sum id fst (analyze_position_concentration (xs @ t # ys))
           = map_sum id fst (analyze_position_concentration (xs @ ys))"
    using av ne by (intro concentration_score_depends_on_volumes) simp_all
next
  fix a l assume "(a, l) \<in> set (bt_address_trades trades)"
  then show "l = map size_of (filter (\<lambda>t. address_of t = a) trades)"
    unfolding bt_address_trades_def by (rule grouped_list_entry)
next
  fix a l assume "(a, l) \<in> set (address_trades trades)"
  then show "l = map (\<lambda>t. (size_of t, timestamp_of t, price_of t))
            (filter (\<lambda>t. address_of t = a) trades)"
    unfolding address_trades_def by (rule grouped_list_entry)
qed

theorem missing_fields_as_written_witness:
  "address_of no_address_trade = ''unknown'' \<and>
   ''unknown'' \<in> fst ` set (address_volumes [trade_a10, no_address_trade]) \<and>
   dict_val (address_volumes [trade_a10, no_address_trade]) ''unknown'' = 10 \<and>
   address_volumes [trade_a10, no_size_trade] = [(''a'', 10)] \<and>
   map_sum id fst (analyze_position_concentration [trade_a10, no_size_trade]) = Inr 10 \<and>
   map_sum id fst (bt_analyze_position_concentration [trade_a10, no_size_trade]) = Inr 10 \<and>
   map size_of (filter (\<lambda>t. address_of t = ''a'') [big_trade, no_size_trade]) = [5000, 0]"
proof -
  have na: "maker no_address_trade = None \<and> taker no_address_trade = None"
    by (simp add: no_address_trade_def)
  have ns: "trade_size no_size_trade = None" by (simp add: no_size_trade_def)
  have seen: "address_of no_size_trade \<in> address_of ` set [trade_a10]"
    by (simp add: no_size_trade_def trade_a10_def mk_trade_def address_of_def)
  have v0: "dict_val (address_volumes [trade_a10]) ''unknown'' = 0"
    and s10: "size_of no_address_trade = 10"
    and av: "address_volumes ([trade_a10] @ []) = [(''a'', 10)]"
    and c: "map_sum id fst (analyze_position_concentration ([trade_a10] @ [])) = Inr 10"
           "map_sum id fst (bt_analyze_position_concentration ([trade_a10] @ [])) = Inr 10"
    and w: "(''a'', [5000, 0]) \<in> set (bt_address_trades [big_trade, no_size_trade])"
    by code_simp+
  note a = missing_fields_as_written[of no_address_trade "[trade_a10]" "[]"]
  note b = missing_fields_as_written[of no_size_trade "[trade_a10]" "[]"]
  note g = missing_fields_as_written[of _ _ _ "[big_trade, no_size_trade]"]
  have 1: "address_of no_address_trade = ''unknown''"
    and 2: "''unknown'' \<in> fst ` set (address_volumes [trade_a10, no_address_trade])"
    and 3: "dict_val (address_volumes [trade_a10, no_address_trade]) ''unknown'' = 10"
    using a na v0 s10 by simp_all
  have 4: "address_volumes [trade_a10, no_size_trade] = [(''a'', 10)]"
    and 5: "map_sum id fst (analyze_position_concentration [trade_a10, no_size_trade]) = Inr 10"
    and 6: "map_sum id fst (bt_analyze_position_concentration [trade_a10, no_size_trade])
              = Inr 10"
    using b ns seen av c by simp_all
  have 7: "[5000, 0] = map size_of (filter (\<lambda>t. address_of t = ''a'') [big_trade, no_size_trade])"
    using g w by blast
  from 1 2 3 4 5 6 7 show ?thesis by simp
qed

section \<open>The range of the detector's scores\<close>

text \<open>Apart from the zero total of claim C3, the detector's indicators keep their scores
  between 0 and 10: velocity, outcome skew and price movement on every trade list, the
  concentration score and the whale score when no size is negative.\<close>

lemma velocity_in_range:
  "0 \<le> fst (analyze_volume_velocity trades) \<and> fst (analyze_volume_velocity trades) \<le> 10"
  by (simp add: analyze_volume_velocity_def Let_def)

lemma outcome_skew_in_range:
  "0 \<le> fst (analyze_outcome_skew trades) \<and> fst (analyze_outcome_skew trades) \<le> 10"
  by (simp add: analyze_outcome_skew_def Let_def)

lemma price_changes_nonneg:
  "\<forall>p\<in>set prices. 0 < p \<Longrightarrow> \<forall>c\<in>set (price_changes_of prices). 0 \<le> c"
  unfolding price_changes_of_def by (auto dest!: set_zip_leftD)

lemma py_mean_nonneg: "\<forall>c\<in>set xs. 0 \<le> c \<Longrightarrow> 0 \<le> py_mean xs"
  unfolding py_mean_def by (simp add: sum_list_nonneg)

lemma py_stdev_nonneg: "0 \<le> py_stdev xs"
  unfolding py_stdev_def by (intro real_sqrt_ge_zero divide_nonneg_nonneg sum_list_nonneg) auto

lemma price_movement_in_range:
  "0 \<le> fst (analyze_price_movement trades) \<and> fst (analyze_price_movement trades) \<le> 10"
proof -
  let ?prices = "filter (\<lambda>p. p > 0) (map price_of (sort_key timestamp_of trades))"
  have "\<forall>c\<in>set (price_changes_of ?prices). 0 \<le> c"
    by (rule price_changes_nonneg) simp
  then have "0 \<le> py_mean (price_changes_of ?prices)" by (rule py_mean_nonneg)
  then show ?thesis
    using py_stdev_nonneg[of "price_changes_of ?prices"]
    by (simp add: analyze_price_movement_def Let_def)
qed

lemma whale_at_most_10: "fst (analyze_whale_accumulation trades) \<le> 10"
  by (simp add: analyze_whale_accumulation_def Let_def split: list.splits)

lemma sum_squares_le_square_sum:
  "\<forall>x\<in>set xs. (0::real) \<le> x \<Longrightarrow> sum_list (map (\<lambda>x. x ^ 2) xs) \<le> (sum_list xs) ^ 2"
proof (induction xs)
  case Nil
  then show ?case by simp
next
  case (Cons x xs)
  then have x: "0 \<le> x" and s: "0 \<le> sum_list xs" and
    ih: "sum_list (map (\<lambda>x. x ^ 2) xs) \<le> (sum_list xs) ^ 2"
    by (simp_all add: sum_list_nonneg)
  have "(x + sum_list xs) ^ 2 = x ^ 2 + 2 * x * sum_list xs + (sum_list xs) ^ 2"
    by (simp add: power2_sum)
  moreover have "0 \<le> 2 * x * sum_list xs" using x s by simp
  ultimately show ?case using ih by simp
qed

lemma sum_list_squared_shares:
  "sum_list (map (\<lambda>share. share ^ 2) (map (\<lambda>v. v / c) xs))
     = sum_list (map (\<lambda>x. x ^ 2) xs) / (c :: real) ^ 2"
  by (induction xs) (simp_all add: power_divide add_divide_distrib)

lemma herfindahl_in_unit_interval:
  assumes "\<forall>t\<in>set trades. 0 \<le> size_of t" "sum_list (map size_of trades) \<noteq> 0"
  shows "0 \<le> herfindahl_of (address_volumes trades) \<and>
         herfindahl_of (address_volumes trades) \<le> 1"
proof -
  let ?av = "address_volumes trades"
  let ?T = "sum_list (map snd ?av)"
  have T: "?T \<noteq> 0" using assms(2) by (simp add: address_volumes_total)
  have nonneg: "\<forall>v\<in>set (map snd ?av). 0 \<le> v"
  proof
    fix v assume "v \<in> set (map snd ?av)"
    then obtain k where "(k, v) \<in> set ?av" by auto
    then have "dict_val ?av k = v"
      using address_volumes_distinct by (simp add: dict_val_def)
    then have "v = sum_list (map size_of (filter (\<lambda>t. address_of t = k) trades))"
      by (simp add: address_volumes_val)
    then show "0 \<le> v" using assms(1) by (auto intro!: sum_list_nonneg)
  qed
  have "herfindahl_of ?av = sum_list (map (\<lambda>x. x ^ 2) (map snd ?av)) / ?T ^ 2"
    unfolding herfindahl_of_def by (rule sum_list_squared_shares)
  moreover have "sum_list (map (\<lambda>x. x ^ 2) (map snd ?av)) \<le> ?T ^ 2"
    using nonneg by (rule sum_squares_le_square_sum)
  moreover have "0 \<le> sum_list (map (\<lambda>x. x ^ 2) (map snd ?av))"
    by (rule sum_list_nonneg) auto
  moreover have "0 < ?T ^ 2" using T by simp
  ultimately show ?thesis by (simp add: divide_le_eq_1)
qed

lemma concentration_in_range:
  assumes "\<forall>t\<in>set trades. 0 \<le> size_of t" "sum_list (map size_of trades) \<noteq> 0"
  shows "\<exists>c. map_sum id fst (analyze_position_concentration trades) = Inr c \<and>
             0 \<le> c \<and> c \<le> 10"
  using concentration_score[OF assms(2)] herfindahl_in_unit_interval[OF assms] by simp

lemma whale_nonneg:
  assumes "\<forall>t\<in>set trades. 0 \<le> size_of t"
  shows "0 \<le> fst (analyze_whale_accumulation trades)"
proof -
  let ?data = "map whale_entry_of (filter (\<lambda>e. length (snd e) \<ge> 2) (address_trades trades))"
  have speed: "0 \<le> accumulation_speed w" if "w \<in> set ?data" for w
  proof -
    from that obtain e where e: "e \<in> set (address_trades trades)" "w = whale_entry_of e"
      by auto
    then have "(fst e, snd e) \<in> set (address_trades trades)" by simp
    then have "snd e = map (\<lambda>t. (size_of t, timestamp_of t, price_of t))
                         (filter (\<lambda>t. address_of t = fst e) trades)"
      unfolding address_trades_def by (rule grouped_list_entry)
    then have "map fst (snd e) = map size_of (filter (\<lambda>t. address_of t = fst e) trades)"
      by (simp add: comp_def)
    then have "0 \<le> sum_list (map fst (snd e))"
      using assms by (auto intro!: sum_list_nonneg)
    then show ?thesis
      by (simp add: e(2) whale_entry_of_def Let_def)
  qed
  show ?thesis
  proof (cases "sorted_desc total_position ?data")
    case Nil
    then show ?thesis by (simp add: analyze_whale_accumulation_def Let_def)
  next
    case (Cons top rest)
    then have "top \<in> set (sorted_desc total_position ?data)" by simp
    then have "top \<in> set ?data" unfolding sorted_desc_def by simp
    then have "0 \<le> accumulation_speed top" by (rule speed)
    then show ?thesis using Cons by (simp add: analyze_whale_accumulation_def Let_def)
  qed
qed

end
